theory Spec2Isabelle
  imports Main "HOL-Library.Sublist"
begin

section \<open>The relational store\<close>

text \<open>
  The tables of \<^verbatim>\<open>db/schema.sql\<close> that the session and reaction code reads and writes.
  A table is the list of its rows in insertion order. Timestamps, which the code stores
  as ISO strings made from \<^verbatim>\<open>Date\<close> values, are kept as the millisecond count of that
  \<^verbatim>\<open>Date\<close>. The schema declares foreign keys, but the connection opened in
  \<^verbatim>\<open>src/db.js\<close> never switches their enforcement on, so only the primary keys and the
  \<^verbatim>\<open>UNIQUE\<close> constraint restrict a write.
\<close>

datatype error = DbNotInitialized | SqliteConstraint | JwtSecretNotSet

record event_row =
  ev_id :: string
  ev_stopId :: string
  ev_type :: string
  ev_description :: "string option"
  ev_timestamp :: int
  ev_created_by :: "string option"

record like_row =
  like_id :: string
  like_event_id :: string
  like_user_id :: string
  like_reaction :: int
  like_created_at :: int

record token_row =
  tok_id :: string
  tok_user_id :: string
  tok_token :: string
  tok_expires_at :: int
  tok_issued_at :: int

record database =
  events :: "event_row list"
  event_likes :: "like_row list"
  user_tokens :: "token_row list"

text \<open>\<^verbatim>\<open>getDb\<close> of \<^verbatim>\<open>src/db.js\<close>: the module-level handle, or a throw before \<^verbatim>\<open>init\<close>.\<close>

definition getDb :: "database option \<Rightarrow> error + database" where
  "getDb dbInstance =
     (case dbInstance of None \<Rightarrow> Inl DbNotInitialized | Some d \<Rightarrow> Inr d)"

text \<open>
  The statements the code issues: \<^verbatim>\<open>get\<close> returns the first row that matches the
  \<^verbatim>\<open>WHERE\<close> clause or nothing, \<^verbatim>\<open>UPDATE\<close> rewrites every matching row where it
  stands, \<^verbatim>\<open>DELETE\<close> removes every matching row.
\<close>

definition sql_get :: "('r \<Rightarrow> bool) \<Rightarrow> 'r list \<Rightarrow> 'r option" where
  "sql_get wh rows = find wh rows"

definition sql_update :: "('r \<Rightarrow> bool) \<Rightarrow> ('r \<Rightarrow> 'r) \<Rightarrow> 'r list \<Rightarrow> 'r list" where
  "sql_update wh upd rows = map (\<lambda>r. if wh r then upd r else r) rows"

definition sql_delete :: "('r \<Rightarrow> bool) \<Rightarrow> 'r list \<Rightarrow> 'r list" where
  "sql_delete wh rows = filter (\<lambda>r. \<not> wh r) rows"

text \<open>
  \<^verbatim>\<open>INSERT INTO event_likes\<close> under the table's constraints:
  \<^verbatim>\<open>id TEXT PRIMARY KEY\<close> and \<^verbatim>\<open>UNIQUE(event_id, user_id)\<close>.
\<close>

definition insert_event_like :: "like_row \<Rightarrow> like_row list \<Rightarrow> error + like_row list" where
  "insert_event_like row rows =
     (if (\<exists>r \<in> set rows. like_id r = like_id row) then Inl SqliteConstraint
      else if (\<exists>r \<in> set rows. like_event_id r = like_event_id row
                 \<and> like_user_id r = like_user_id row) then Inl SqliteConstraint
      else Inr (rows @ [row]))"

text \<open>\<^verbatim>\<open>INSERT INTO user_tokens\<close>: \<^verbatim>\<open>id TEXT PRIMARY KEY\<close> is the only constraint.\<close>

definition insert_user_token :: "token_row \<Rightarrow> token_row list \<Rightarrow> error + token_row list" where
  "insert_user_token row rows =
     (if (\<exists>r \<in> set rows. tok_id r = tok_id row) then Inl SqliteConstraint
      else Inr (rows @ [row]))"

text \<open>
  \<^verbatim>\<open>SUM(...)\<close> over the selected rows: \<^verbatim>\<open>NULL\<close> when no row is selected. The code
  reads it as \<^verbatim>\<open>row.likes || 0\<close>.
\<close>

definition sql_sum :: "int list \<Rightarrow> int option" where
  "sql_sum xs = (if xs = [] then None else Some (sum_list xs))"

definition or_zero :: "int option \<Rightarrow> int" where
  "or_zero v = (case v of None \<Rightarrow> 0 | Some n \<Rightarrow> (if n = 0 then 0 else n))"

section \<open>The reaction ledger (src/models/eventModel.js)\<close>

record LikeDislikeResult =
  eventExists :: bool
  updated :: bool

record reaction_counts =
  likes :: int
  dislikes :: int

text \<open>
  \<^verbatim>\<open>likeOrDislikeEvent(eventId, userId, reaction)\<close>. The two values the function takes
  from its environment are arguments here: \<^verbatim>\<open>newId\<close> is the result of \<^verbatim>\<open>uuidv4()\<close>
  and \<^verbatim>\<open>now\<close> the clock read by \<^verbatim>\<open>new Date()\<close>. The result is the thrown error, or
  the store after the call with the returned object.
\<close>

definition likeOrDislikeEvent ::
  "database option \<Rightarrow> string \<Rightarrow> int \<Rightarrow> string \<Rightarrow> string \<Rightarrow> int
     \<Rightarrow> error + (database \<times> LikeDislikeResult)" where
  "likeOrDislikeEvent dbInstance newId now eventId userId reaction =
     (case getDb dbInstance of
        Inl e \<Rightarrow> Inl e
      | Inr db \<Rightarrow>
          (case sql_get (\<lambda>r. ev_id r = eventId) (events db) of
             None \<Rightarrow> Inr (db, \<lparr>eventExists = False, updated = False\<rparr>)
           | Some event \<Rightarrow>
               (case sql_get (\<lambda>r. like_event_id r = eventId \<and> like_user_id r = userId)
                       (event_likes db) of
                  None \<Rightarrow>
                    (case insert_event_like
                            \<lparr>like_id = newId, like_event_id = eventId, like_user_id = userId,
                             like_reaction = reaction, like_created_at = now\<rparr>
                            (event_likes db) of
                       Inl e \<Rightarrow> Inl e
                     | Inr rows \<Rightarrow>
                         Inr (db\<lparr>event_likes := rows\<rparr>,
                              \<lparr>eventExists = True, updated = False\<rparr>))
                | Some existing \<Rightarrow>
                    if like_reaction existing \<noteq> reaction then
                      Inr (db\<lparr>event_likes :=
                                sql_update (\<lambda>r. like_id r = like_id existing)
                                  (\<lambda>r. r\<lparr>like_reaction := reaction, like_created_at := now\<rparr>)
                                  (event_likes db)\<rparr>,
                           \<lparr>eventExists = True, updated = True\<rparr>)
                    else Inr (db, \<lparr>eventExists = True, updated = False\<rparr>))))"

text \<open>\<^verbatim>\<open>getEventReactions(eventId)\<close>: the two conditional sums over the event's rows.\<close>

definition getEventReactions :: "database option \<Rightarrow> string \<Rightarrow> error + reaction_counts" where
  "getEventReactions dbInstance eventId =
     (case getDb dbInstance of
        Inl e \<Rightarrow> Inl e
      | Inr db \<Rightarrow>
          (let rows = filter (\<lambda>r. like_event_id r = eventId) (event_likes db) in
           Inr \<lparr>likes = or_zero (sql_sum (map (\<lambda>r. if like_reaction r = 1 then 1 else 0) rows)),
                dislikes =
                  or_zero (sql_sum (map (\<lambda>r. if like_reaction r = - 1 then 1 else 0) rows))\<rparr>))"

text \<open>
  The toggle as the specification words it, for comparison with the code: the event is
  looked up, then the position of the pair's row; a missing row is appended, a row of the
  other polarity is overwritten at its position, a row of the same polarity is left alone.
\<close>

fun row_position :: "('r \<Rightarrow> bool) \<Rightarrow> 'r list \<Rightarrow> nat option" where
  "row_position p [] = None"
| "row_position p (r # rows) =
     (if p r then Some 0 else map_option Suc (row_position p rows))"

definition toggle_spec ::
  "database \<Rightarrow> string \<Rightarrow> int \<Rightarrow> string \<Rightarrow> string \<Rightarrow> int \<Rightarrow> database \<times> LikeDislikeResult" where
  "toggle_spec db newId now eventId userId polarity =
     (if eventId \<notin> ev_id ` set (events db) then
        (db, \<lparr>eventExists = False, updated = False\<rparr>)
      else
        (case row_position (\<lambda>r. (like_event_id r, like_user_id r) = (eventId, userId))
                (event_likes db) of
           None \<Rightarrow>
             (db\<lparr>event_likes := event_likes db @
                    [\<lparr>like_id = newId, like_event_id = eventId, like_user_id = userId,
                      like_reaction = polarity, like_created_at = now\<rparr>]\<rparr>,
              \<lparr>eventExists = True, updated = False\<rparr>)
         | Some i \<Rightarrow>
             if like_reaction (event_likes db ! i) = polarity then
               (db, \<lparr>eventExists = True, updated = False\<rparr>)
             else
               (db\<lparr>event_likes := (event_likes db)
                      [i := (event_likes db ! i)\<lparr>like_reaction := polarity,
                                                  like_created_at := now\<rparr>]\<rparr>,
                \<lparr>eventExists = True, updated = True\<rparr>)))"

text \<open>
  A run of the ledger: the toggle calls the server executes one after the other, each
  with its own fresh identifier and clock reading. A call that throws leaves the store as
  it was (the failed statement writes nothing), and the server goes on to the next call.
\<close>

record toggle_call =
  call_newId :: string
  call_now :: int
  call_eventId :: string
  call_userId :: string
  call_reaction :: int

definition toggle_step :: "database \<Rightarrow> toggle_call \<Rightarrow> database" where
  "toggle_step db c =
     (case likeOrDislikeEvent (Some db) (call_newId c) (call_now c) (call_eventId c)
             (call_userId c) (call_reaction c) of
        Inl e \<Rightarrow> db
      | Inr (db', res) \<Rightarrow> db')"

fun run_toggles :: "database \<Rightarrow> toggle_call list \<Rightarrow> database" where
  "run_toggles db [] = db"
| "run_toggles db (c # cs) = run_toggles (toggle_step db c) cs"

definition like_pair :: "like_row \<Rightarrow> string \<times> string" where
  "like_pair r = (like_event_id r, like_user_id r)"

section \<open>Session tokens (src/middleware/auth.js)\<close>

record jwt_payload =
  sub :: string
  jti :: string
  iat :: int
  exp :: int

definition TOKEN_EXPIRES_IN :: int where
  "TOKEN_EXPIRES_IN = 7 * 24 * 60 * 60"

text \<open>
  \<^verbatim>\<open>config.JWT_SECRET = process.env.JWT_SECRET || ""\<close>; the environment variable is
  \<^verbatim>\<open>None\<close> when it is not set.
\<close>

definition config_JWT_SECRET :: "string option \<Rightarrow> string" where
  "config_JWT_SECRET env = (case env of None \<Rightarrow> [] | Some s \<Rightarrow> s)"

text \<open>
  \<^verbatim>\<open>generateAndStoreToken(userId, deviceInfo)\<close>. The library call \<^verbatim>\<open>jwt.sign\<close> is the
  argument \<^verbatim>\<open>jwt_sign\<close>; \<^verbatim>\<open>tokenId\<close> is the result of \<^verbatim>\<open>uuidv4()\<close> and \<^verbatim>\<open>now\<close> is
  \<^verbatim>\<open>Date.now()\<close> in milliseconds. The row stores the dates
  \<^verbatim>\<open>new Date(expiresAt * 1000)\<close> and \<^verbatim>\<open>new Date(issuedAt * 1000)\<close>.
\<close>

definition generateAndStoreToken ::
  "(jwt_payload \<Rightarrow> string \<Rightarrow> string) \<Rightarrow> string option \<Rightarrow> database option
     \<Rightarrow> string \<Rightarrow> int \<Rightarrow> string \<Rightarrow> string \<Rightarrow> error + (database \<times> string)" where
  "generateAndStoreToken jwt_sign env dbInstance tokenId now userId deviceInfo =
     (let issuedAt = now div 1000;
          expiresAt = issuedAt + TOKEN_EXPIRES_IN;
          payload = \<lparr>sub = userId, jti = tokenId, iat = issuedAt, exp = expiresAt\<rparr>
      in if config_JWT_SECRET env = [] then Inl JwtSecretNotSet
         else
           (let token = jwt_sign payload (config_JWT_SECRET env) in
            case getDb dbInstance of
              Inl e \<Rightarrow> Inl e
            | Inr db \<Rightarrow>
                (case insert_user_token
                        \<lparr>tok_id = tokenId, tok_user_id = userId, tok_token = token,
                         tok_expires_at = expiresAt * 1000, tok_issued_at = issuedAt * 1000\<rparr>
                        (user_tokens db) of
                   Inl e \<Rightarrow> Inl e
                 | Inr rows \<Rightarrow> Inr (db\<lparr>user_tokens := rows\<rparr>, token))))"

text \<open>\<^verbatim>\<open>header.split(" ")\<close> and the read of its element 1 (\<^verbatim>\<open>undefined\<close> out of range).\<close>

fun split_space :: "string \<Rightarrow> string list" where
  "split_space [] = [[]]"
| "split_space (c # cs) =
     (if c = CHR '' '' then [] # split_space cs
      else (case split_space cs of
              [] \<Rightarrow> [[c]]
            | w # ws \<Rightarrow> (c # w) # ws))"

definition header_token :: "string \<Rightarrow> string option" where
  "header_token header =
     (case split_space header of
        w0 # w1 # ws \<Rightarrow> Some w1
      | _ \<Rightarrow> None)"

text \<open>
  What \<^verbatim>\<open>authenticateJWT\<close> does with the request: answer 401 with a message, call
  \<^verbatim>\<open>next()\<close> with \<^verbatim>\<open>req.user.id\<close> set, or call \<^verbatim>\<open>next(err)\<close>. Next to it the
  model records the reads of the store the call has made, in order.
\<close>

datatype auth_outcome = Status401 string | NextUser string | NextError error

datatype store_read = SelectUserToken string string

definition MissingCredential :: auth_outcome where
  "MissingCredential = Status401 ''Missing or invalid Authorization header''"

definition InvalidSignatureOrExpired :: auth_outcome where
  "InvalidSignatureOrExpired = Status401 ''Invalid or expired token''"

definition NotRecognized :: auth_outcome where
  "NotRecognized = Status401 ''Token not recognized or revoked''"

text \<open>
  \<^verbatim>\<open>authenticateJWT(req, res, next)\<close>. The library call \<^verbatim>\<open>jwt.verify(token, jwtSecret)\<close>
  is the argument \<^verbatim>\<open>jwt_verify\<close>: it is given the token, \<^verbatim>\<open>process.env.JWT_SECRET\<close> and
  the clock, and returns the payload, or \<^verbatim>\<open>None\<close> where the library throws.
  \<^verbatim>\<open>authorization\<close> is the request header, \<^verbatim>\<open>None\<close> when the request has none.
\<close>

definition authenticateJWT ::
  "(string \<Rightarrow> string option \<Rightarrow> int \<Rightarrow> jwt_payload option) \<Rightarrow> string option \<Rightarrow> int
     \<Rightarrow> database option \<Rightarrow> string option \<Rightarrow> auth_outcome \<times> store_read list" where
  "authenticateJWT jwt_verify env now dbInstance authorization =
     (let header = (case authorization of None \<Rightarrow> [] | Some h \<Rightarrow> h) in
      if \<not> prefix ''Bearer '' header then
        (Status401 ''Missing or invalid Authorization header'', [])
      else
        (case (case header_token header of
                 None \<Rightarrow> None
               | Some token \<Rightarrow> map_option (Pair token) (jwt_verify token env now)) of
           None \<Rightarrow> (Status401 ''Invalid or expired token'', [])
         | Some (token, payload) \<Rightarrow>
             (case getDb dbInstance of
                Inl e \<Rightarrow> (NextError e, [])
              | Inr db \<Rightarrow>
                  (case sql_get (\<lambda>r. tok_id r = jti payload \<and> tok_token r = token)
                          (user_tokens db) of
                     None \<Rightarrow> (Status401 ''Token not recognized or revoked'',
                              [SelectUserToken (jti payload) token])
                   | Some tokenRow \<Rightarrow>
                       (NextUser (sub payload), [SelectUserToken (jti payload) token])))))"

text \<open>\<^verbatim>\<open>revokeToken(token)\<close>: \<^verbatim>\<open>DELETE FROM user_tokens WHERE token = ?\<close>.\<close>

definition revokeToken :: "database option \<Rightarrow> string \<Rightarrow> error + database" where
  "revokeToken dbInstance token =
     (case getDb dbInstance of
        Inl e \<Rightarrow> Inl e
      | Inr db \<Rightarrow>
          Inr (db\<lparr>user_tokens := sql_delete (\<lambda>r. tok_token r = token) (user_tokens db)\<rparr>))"

text \<open>
  The verification of the jsonwebtoken library, for the statements that depend on the
  embedded expiry. \<^verbatim>\<open>decode\<close> says of each string whether it parses as a token and, if
  so, which payload it carries and under which secret its signature checks. The library
  throws without a secret, on a string that does not parse, on a signature that does not
  check, and when \<^verbatim>\<open>Math.floor(Date.now() / 1000) >= payload.exp\<close>.
\<close>

definition jsonwebtoken_verify ::
  "(string \<Rightarrow> (jwt_payload \<times> string) option)
     \<Rightarrow> string \<Rightarrow> string option \<Rightarrow> int \<Rightarrow> jwt_payload option" where
  "jsonwebtoken_verify decode token env now =
     (case env of
        None \<Rightarrow> None
      | Some secret \<Rightarrow>
          if secret = [] then None
          else
            (case decode token of
               None \<Rightarrow> None
             | Some (payload, signing_secret) \<Rightarrow>
                 if signing_secret \<noteq> secret then None
                 else if now div 1000 \<ge> exp payload then None
                 else Some payload))"

section \<open>The response cache (src/middleware/cache.js) in front of the poznan route\<close>

record js_error =
  err_statusCode :: "nat option"
  err_status :: "nat option"
  err_message :: string
  err_stack :: "string option"
  err_details :: "string option"

text \<open>
  A response body: the data a route sends, or the object the error handler builds
  (\<^verbatim>\<open>error\<close>, \<^verbatim>\<open>stack\<close>, \<^verbatim>\<open>details\<close>).
\<close>

datatype 'v body = Data 'v | ErrorResponse string "string option" "string option"

record 'v cache_entry =
  expires :: int
  "value" :: "'v body"

type_synonym 'v cache = "string \<rightharpoonup> 'v cache_entry"

text \<open>
  The response object of one request. \<^verbatim>\<open>json_patch\<close> is set once the cache middleware
  has replaced \<^verbatim>\<open>res.json\<close>; it holds what the replacement closes over, the key and
  \<^verbatim>\<open>ttlMs\<close>.
\<close>

record 'v response =
  statusCode :: nat
  sent :: "'v body option"
  json_patch :: "(string \<times> int) option"

definition new_response :: "'v response" where
  "new_response = \<lparr>statusCode = 200, sent = None, json_patch = None\<rparr>"

definition originalJson :: "'v body \<Rightarrow> 'v response \<Rightarrow> 'v response" where
  "originalJson b res = res\<lparr>sent := Some b\<rparr>"

text \<open>
  A call of \<^verbatim>\<open>res.json(body)\<close> at clock \<^verbatim>\<open>now\<close>: the replacement installed by the cache
  middleware first runs \<^verbatim>\<open>cache.set(key, { expires: Date.now() + ttlMs, value: body })\<close>.
\<close>

definition res_json :: "int \<Rightarrow> 'v body \<Rightarrow> 'v cache \<times> 'v response \<Rightarrow> 'v cache \<times> 'v response" where
  "res_json now b st =
     (case st of (cache, res) \<Rightarrow>
        (case json_patch res of
           None \<Rightarrow> (cache, originalJson b res)
         | Some (key, ttlMs) \<Rightarrow>
             (cache(key \<mapsto> \<lparr>expires = now + ttlMs, value = b\<rparr>), originalJson b res)))"

datatype flow = Next | Done

text \<open>The middleware returned by \<^verbatim>\<open>createCache(ttlMs)\<close>; \<^verbatim>\<open>key\<close> is \<^verbatim>\<open>req.originalUrl\<close>.\<close>

definition createCache ::
  "int \<Rightarrow> string \<Rightarrow> string \<Rightarrow> int \<Rightarrow> 'v cache \<times> 'v response
     \<Rightarrow> flow \<times> 'v cache \<times> 'v response" where
  "createCache ttlMs method key now st =
     (case st of (cache, res) \<Rightarrow>
        if method \<noteq> ''GET'' then (Next, cache, res)
        else
          (case cache key of
             Some entry \<Rightarrow>
               if now < expires entry then (Done, cache, originalJson (value entry) res)
               else (Next, cache(key := None), res\<lparr>json_patch := Some (key, ttlMs)\<rparr>)
           | None \<Rightarrow> (Next, cache, res\<lparr>json_patch := Some (key, ttlMs)\<rparr>)))"

text \<open>\<^verbatim>\<open>a || b\<close> on optional numbers and strings: zero, the empty string and a missing value are falsy.\<close>

definition num_or :: "nat option \<Rightarrow> nat option \<Rightarrow> nat option" where
  "num_or a b = (case a of Some n \<Rightarrow> (if n = 0 then b else Some n) | None \<Rightarrow> b)"

definition truthy_string :: "string option \<Rightarrow> string option" where
  "truthy_string a = (case a of Some s \<Rightarrow> (if s = [] then None else Some s) | None \<Rightarrow> None)"

text \<open>
  \<^verbatim>\<open>errorHandler(err, req, res, next)\<close>; \<^verbatim>\<open>production\<close> says whether
  \<^verbatim>\<open>NODE_ENV\<close> is \<^verbatim>\<open>"production"\<close>. It ends with \<^verbatim>\<open>res.status(status).json(response)\<close>.
\<close>

definition errorHandler ::
  "js_error \<Rightarrow> bool \<Rightarrow> int \<Rightarrow> 'v cache \<times> 'v response \<Rightarrow> 'v cache \<times> 'v response" where
  "errorHandler err production now st =
     (case st of (cache, res) \<Rightarrow>
        (let status = (case num_or (num_or (err_statusCode err) (err_status err)) (Some 500) of
                         Some n \<Rightarrow> n | None \<Rightarrow> 500);
             message = (if err_message err = [] then ''Internal Server Error''
                        else err_message err);
             stack = (if \<not> production then truthy_string (err_stack err) else None);
             details = truthy_string (err_details err)
         in res_json now (ErrorResponse message stack details)
              (cache, res\<lparr>statusCode := status\<rparr>)))"

text \<open>
  The handler of \<^verbatim>\<open>GET /\<close> in \<^verbatim>\<open>routes/v1/poznan.js\<close>. \<^verbatim>\<open>fetched\<close> is the outcome of
  its \<^verbatim>\<open>try\<close> block, the upstream call and the mapping of its features: the mapped
  data, or the error thrown. The data goes to \<^verbatim>\<open>res.json\<close>, the error to \<^verbatim>\<open>next(err)\<close>
  and so to the error handler.
\<close>

definition poznan_get ::
  "(js_error + 'v) \<Rightarrow> bool \<Rightarrow> int \<Rightarrow> 'v cache \<times> 'v response \<Rightarrow> 'v cache \<times> 'v response" where
  "poznan_get fetched production now st =
     (case fetched of
        Inr mapped \<Rightarrow> res_json now (Data mapped) st
      | Inl err \<Rightarrow> errorHandler err production now st)"

text \<open>
  One request to the poznan router: \<^verbatim>\<open>router.use("/", createCache(CACHE_TTL_MS))\<close>, then
  \<^verbatim>\<open>router.get("/", ...)\<close>. \<^verbatim>\<open>now\<close> is the clock when the middleware runs and
  \<^verbatim>\<open>now_json\<close> the clock when the response is sent. The result is the cache after the
  request, the response, and whether the route handler has run. Express hands a
  \<^verbatim>\<open>HEAD\<close> request to the \<^verbatim>\<open>get\<close> handler as well; the middleware has let it pass
  without replacing \<^verbatim>\<open>res.json\<close>, so the handler runs and nothing is stored. An
  \<^verbatim>\<open>OPTIONS\<close> request is answered 200 by the router itself, and any other method
  finds no route and is answered 404; neither runs the handler.
\<close>

definition poznan_request ::
  "int \<Rightarrow> bool \<Rightarrow> string \<Rightarrow> string \<Rightarrow> int \<Rightarrow> int \<Rightarrow> (js_error + 'v) \<Rightarrow> 'v cache
     \<Rightarrow> 'v cache \<times> 'v response \<times> bool" where
  "poznan_request ttlMs production method key now now_json fetched cache =
     (case createCache ttlMs method key now (cache, new_response) of
        (Done, cache', res) \<Rightarrow> (cache', res, False)
      | (Next, cache', res) \<Rightarrow>
          if method = ''GET'' \<or> method = ''HEAD'' then
            (case poznan_get fetched production now_json (cache', res) of
               (cache'', res') \<Rightarrow> (cache'', res', True))
          else if method = ''OPTIONS'' then (cache', res, False)
          else (cache', res\<lparr>statusCode := 404\<rparr>, False))"

definition CACHE_TTL_MS :: int where
  "CACHE_TTL_MS = 5 * 60 * 1000"

section \<open>Example stores and credentials\<close>

text \<open>An event \<^verbatim>\<open>e1\<close>; a store where user \<^verbatim>\<open>u2\<close> has liked it; a store without reactions.\<close>

definition ex_event :: event_row where
  "ex_event = \<lparr>ev_id = ''e1'', ev_stopId = ''20001'', ev_type = ''info'',
                ev_description = Some ''Event to like/dislike'', ev_timestamp = 0,
                ev_created_by = Some ''u2''\<rparr>"

definition ex_db :: database where
  "ex_db = \<lparr>events = [ex_event],
             event_likes = [\<lparr>like_id = ''r1'', like_event_id = ''e1'', like_user_id = ''u2'',
                             like_reaction = 1, like_created_at = 5\<rparr>],
             user_tokens = []\<rparr>"

definition ex_db_no_reactions :: database where
  "ex_db_no_reactions = \<lparr>events = [ex_event], event_likes = [], user_tokens = []\<rparr>"

text \<open>
  A credential: the string \<^verbatim>\<open>tok\<close> is the token signed under \<^verbatim>\<open>secret\<close> for user
  \<^verbatim>\<open>u1\<close>, issued at second 0 and expiring seven days later; no other string is a token.
\<close>

definition ex_sign :: "jwt_payload \<Rightarrow> string \<Rightarrow> string" where
  "ex_sign payload secret = ''tok''"

definition ex_decode :: "string \<Rightarrow> (jwt_payload \<times> string) option" where
  "ex_decode token =
     (if token = ''tok''
      then Some (\<lparr>sub = ''u1'', jti = ''t1'', iat = 0, exp = 604800\<rparr>, ''secret'')
      else None)"

definition ex_token_db :: database where
  "ex_token_db = \<lparr>events = [], event_likes = [],
                   user_tokens = [\<lparr>tok_id = ''t1'', tok_user_id = ''u1'', tok_token = ''tok'',
                                   tok_expires_at = 604800000, tok_issued_at = 0\<rparr>]\<rparr>"

definition ex_upstream_error :: js_error where
  "ex_upstream_error = \<lparr>err_statusCode = None, err_status = None,
                          err_message = ''connect ECONNREFUSED'', err_stack = None,
                          err_details = None\<rparr>"

text \<open>
  A token format for which signing and decoding can be computed: every text field is
  written character by character, each character behind a \<^verbatim>\<open>+\<close>, and closed by a
  \<^verbatim>\<open>.\<close>; a number is written as its sign and its binary digits, lowest first. The
  token is the fields \<^verbatim>\<open>sub\<close>, \<^verbatim>\<open>jti\<close>, \<^verbatim>\<open>iat\<close>, \<^verbatim>\<open>exp\<close> and the secret in
  this order.
\<close>

fun bits :: "nat \<Rightarrow> string" where
  "bits n = (if n = 0 then []
             else (if even n then CHR ''0'' else CHR ''1'') # bits (n div 2))"

declare bits.simps [simp del]

primrec unbits :: "string \<Rightarrow> nat" where
  "unbits [] = 0"
| "unbits (c # cs) = (if c = CHR ''1'' then 1 else 0) + 2 * unbits cs"

definition enc_int :: "int \<Rightarrow> string" where
  "enc_int i = (if i < 0 then CHR ''-'' else CHR ''p'') # bits (nat \<bar>i\<bar>)"

definition dec_int :: "string \<Rightarrow> int option" where
  "dec_int s =
     (case s of
        [] \<Rightarrow> None
      | c # bs \<Rightarrow> if c = CHR ''-'' then Some (- int (unbits bs)) else Some (int (unbits bs)))"

primrec enc_field :: "string \<Rightarrow> string \<Rightarrow> string" where
  "enc_field [] rest = CHR ''.'' # rest"
| "enc_field (c # cs) rest = CHR ''+'' # c # enc_field cs rest"

fun dec_field :: "string \<Rightarrow> (string \<times> string) option" where
  "dec_field [] = None"
| "dec_field [x] = (if x = CHR ''.'' then Some ([], []) else None)"
| "dec_field (x # c # rest) =
     (if x = CHR ''.'' then Some ([], c # rest)
      else if x = CHR ''+'' then
        (case dec_field rest of None \<Rightarrow> None | Some (field, rest') \<Rightarrow> Some (c # field, rest'))
      else None)"

definition codec_sign :: "jwt_payload \<Rightarrow> string \<Rightarrow> string" where
  "codec_sign payload secret =
     enc_field (sub payload) (enc_field (jti payload) (enc_field (enc_int (iat payload))
       (enc_field (enc_int (exp payload)) (enc_field secret []))))"

definition codec_decode :: "string \<Rightarrow> (jwt_payload \<times> string) option" where
  "codec_decode token =
     (case dec_field token of None \<Rightarrow> None | Some (s, r1) \<Rightarrow>
      case dec_field r1 of None \<Rightarrow> None | Some (j, r2) \<Rightarrow>
      case dec_field r2 of None \<Rightarrow> None | Some (i, r3) \<Rightarrow>
      case dec_field r3 of None \<Rightarrow> None | Some (e, r4) \<Rightarrow>
      case dec_field r4 of None \<Rightarrow> None | Some (k, r5) \<Rightarrow>
        if r5 \<noteq> [] then None
        else (case dec_int i of None \<Rightarrow> None | Some iat' \<Rightarrow>
              case dec_int e of None \<Rightarrow> None | Some exp' \<Rightarrow>
                Some (\<lparr>sub = s, jti = j, iat = iat', exp = exp'\<rparr>, k)))"

text \<open>A token issued in that format at 500 ms, and the store its issuance leaves.\<close>

definition ex_issued_token :: string where
  "ex_issued_token = codec_sign \<lparr>sub = ''u1'', jti = ''t1'', iat = 0, exp = 604800\<rparr> ''secret''"

definition ex_issued_db :: database where
  "ex_issued_db = \<lparr>events = [], event_likes = [],
                    user_tokens = [\<lparr>tok_id = ''t1'', tok_user_id = ''u1'',
                                    tok_token = ex_issued_token,
                                    tok_expires_at = 604800000, tok_issued_at = 0\<rparr>]\<rparr>"

section \<open>The reaction ledger: toggle and counts\<close>

lemma find_row_position:
  "find p rows = map_option (\<lambda>i. rows ! i) (row_position p rows)"
  by (induction rows) (auto simp: option.map_comp comp_def)

lemma row_position_None: "row_position p rows = None \<longleftrightarrow> (\<forall>r \<in> set rows. \<not> p r)"
  by (induction rows) auto

lemma row_position_less: "row_position p rows = Some i \<Longrightarrow> i < length rows"
  by (induction rows arbitrary: i) (auto split: if_splits)

lemma row_position_holds: "row_position p rows = Some i \<Longrightarrow> p (rows ! i)"
  by (induction rows arbitrary: i) (auto split: if_splits)

lemma update_by_key_in_place:
  assumes "distinct (map key rows)" and "i < length rows"
  shows "map (\<lambda>r. if key r = key (rows ! i) then upd r else r) rows = rows[i := upd (rows ! i)]"
proof (rule nth_equalityI)
  show "length (map (\<lambda>r. if key r = key (rows ! i) then upd r else r) rows)
          = length (rows[i := upd (rows ! i)])"
    by simp
next
  fix j
  assume "j < length (map (\<lambda>r. if key r = key (rows ! i) then upd r else r) rows)"
  then have j: "j < length rows" by simp
  have "key (rows ! j) = key (rows ! i) \<longleftrightarrow> j = i"
    using assms j nth_eq_iff_index_eq [of "map key rows" j i] by auto
  then show "map (\<lambda>r. if key r = key (rows ! i) then upd r else r) rows ! j
               = rows[i := upd (rows ! i)] ! j"
    using j by (auto simp: nth_list_update)
qed

text \<open>
  Claim C1. On a table whose primary key holds and with a fresh identifier from
  \<^verbatim>\<open>uuidv4()\<close>, \<^verbatim>\<open>likeOrDislikeEvent\<close> returns without error and does exactly what the
  specified toggle does: for an unknown event nothing is written and the result is
  \<^verbatim>\<open>{eventExists: false, updated: false}\<close>; with no row for the pair a row of the given
  polarity is appended and the result is \<^verbatim>\<open>{true, false}\<close>; a row of the other polarity
  is overwritten where it stands, with the new polarity and the new timestamp, and the
  result is \<^verbatim>\<open>{true, true}\<close>; a row of the same polarity is left as it is and the result
  is \<^verbatim>\<open>{true, false}\<close>.
\<close>

theorem likeOrDislikeEvent_follows_toggle_spec:
  assumes ids: "distinct (map like_id (event_likes db))"
    and fresh: "newId \<notin> like_id ` set (event_likes db)"
  shows "likeOrDislikeEvent (Some db) newId now eventId userId reaction
           = Inr (toggle_spec db newId now eventId userId reaction)"
proof (cases "eventId \<in> ev_id ` set (events db)")
  case False
  then have "find (\<lambda>r. ev_id r = eventId) (events db) = None"
    by (auto simp: find_None_iff)
  with False show ?thesis
    by (simp add: likeOrDislikeEvent_def toggle_spec_def getDb_def sql_get_def)
next
  case True
  then obtain event where ev: "find (\<lambda>r. ev_id r = eventId) (events db) = Some event"
    by (cases "find (\<lambda>r. ev_id r = eventId) (events db)") (auto simp: find_None_iff)
  let ?p = "\<lambda>r. like_event_id r = eventId \<and> like_user_id r = userId"
  have same: "(\<lambda>r. (like_event_id r, like_user_id r) = (eventId, userId)) = ?p"
    by auto
  show ?thesis
  proof (cases "row_position ?p (event_likes db)")
    case None
    then have no_row: "\<forall>r \<in> set (event_likes db). \<not> ?p r"
      by (simp add: row_position_None)
    then have "insert_event_like
         \<lparr>like_id = newId, like_event_id = eventId, like_user_id = userId,
          like_reaction = reaction, like_created_at = now\<rparr> (event_likes db)
       = Inr (event_likes db @ [\<lparr>like_id = newId, like_event_id = eventId, like_user_id = userId,
          like_reaction = reaction, like_created_at = now\<rparr>])"
      using fresh by (auto simp: insert_event_like_def)
    moreover have "find ?p (event_likes db) = None"
      using None by (simp add: find_row_position)
    ultimately show ?thesis
      using None True ev
      by (simp add: likeOrDislikeEvent_def toggle_spec_def getDb_def sql_get_def same)
  next
    case (Some i)
    then have i: "i < length (event_likes db)"
      by (rule row_position_less)
    have "sql_update (\<lambda>r. like_id r = like_id (event_likes db ! i))
            (\<lambda>r. r\<lparr>like_reaction := reaction, like_created_at := now\<rparr>) (event_likes db)
          = (event_likes db)[i := (event_likes db ! i)\<lparr>like_reaction := reaction,
                                                        like_created_at := now\<rparr>]"
      unfolding sql_update_def using ids i by (rule update_by_key_in_place)
    moreover have "find ?p (event_likes db) = Some (event_likes db ! i)"
      using Some by (simp add: find_row_position)
    ultimately show ?thesis
      using Some True ev
      by (simp add: likeOrDislikeEvent_def toggle_spec_def getDb_def sql_get_def same)
  qed
qed

lemma distinct_key_filter_le_one:
  "distinct (map key rows) \<Longrightarrow> length (filter (\<lambda>r. key r = k) rows) \<le> 1"
proof (induction rows)
  case Nil
  then show ?case by simp
next
  case (Cons r rows)
  show ?case
  proof (cases "key r = k")
    case True
    from Cons.prems have "key r \<notin> set (map key rows)" by simp
    with True have "\<forall>x \<in> set rows. key x \<noteq> k" by (metis image_eqI set_map)
    then have "filter (\<lambda>r. key r = k) rows = []" by (simp add: filter_empty_conv)
    with True show ?thesis by simp
  next
    case False
    with Cons show ?thesis by simp
  qed
qed

lemma like_pair_sql_update:
  "map like_pair (sql_update wh (\<lambda>r. r\<lparr>like_reaction := x, like_created_at := t\<rparr>) rows)
     = map like_pair rows"
  by (simp add: sql_update_def like_pair_def)

lemma insert_event_like_pairs:
  assumes "insert_event_like row rows = Inr rows'" and "distinct (map like_pair rows)"
  shows "distinct (map like_pair rows')"
proof -
  from assms(1) have rows': "rows' = rows @ [row]"
    and new: "\<forall>r \<in> set rows. like_pair r \<noteq> like_pair row"
    by (auto simp: insert_event_like_def like_pair_def split: if_splits)
  with assms(2) show ?thesis by auto
qed

lemma likeOrDislikeEvent_pairs:
  assumes "likeOrDislikeEvent (Some db) newId now eventId userId reaction = Inr (db', res)"
    and "distinct (map like_pair (event_likes db))"
  shows "distinct (map like_pair (event_likes db'))"
  using assms
  by (auto simp: likeOrDislikeEvent_def getDb_def like_pair_sql_update
           split: option.splits sum.splits if_splits dest: insert_event_like_pairs)

lemma toggle_step_pairs:
  "distinct (map like_pair (event_likes db)) \<Longrightarrow>
   distinct (map like_pair (event_likes (toggle_step db c)))"
  by (auto simp: toggle_step_def split: sum.splits dest: likeOrDislikeEvent_pairs)

lemma run_toggles_pairs:
  "distinct (map like_pair (event_likes db)) \<Longrightarrow>
   distinct (map like_pair (event_likes (run_toggles db cs)))"
  by (induction cs arbitrary: db) (simp_all add: toggle_step_pairs)

text \<open>
  The primary key of the table is kept by every toggle as well, and the only error a toggle
  on an initialised store can raise is the collision of the new identifier with a stored
  one: the uniqueness constraint on the pair never rejects its insert.
\<close>

lemma like_id_sql_update:
  "map like_id (sql_update wh (\<lambda>r. r\<lparr>like_reaction := x, like_created_at := t\<rparr>) rows)
     = map like_id rows"
  by (simp add: sql_update_def)

lemma insert_event_like_ids:
  assumes "insert_event_like row rows = Inr rows'" and "distinct (map like_id rows)"
  shows "distinct (map like_id rows')"
proof -
  from assms(1) have "rows' = rows @ [row]"
    and "\<forall>r \<in> set rows. like_id r \<noteq> like_id row"
    by (auto simp: insert_event_like_def split: if_splits)
  with assms(2) show ?thesis by auto
qed

lemma likeOrDislikeEvent_ids:
  assumes "likeOrDislikeEvent (Some db) newId now eventId userId reaction = Inr (db', res)"
    and "distinct (map like_id (event_likes db))"
  shows "distinct (map like_id (event_likes db'))"
  using assms
  by (auto simp: likeOrDislikeEvent_def getDb_def like_id_sql_update
           split: option.splits sum.splits if_splits dest: insert_event_like_ids)

lemma run_toggles_ids:
  "distinct (map like_id (event_likes db)) \<Longrightarrow>
   distinct (map like_id (event_likes (run_toggles db cs)))"
proof (induction cs arbitrary: db)
  case Nil
  then show ?case by simp
next
  case (Cons c cs)
  from Cons.prems have "distinct (map like_id (event_likes (toggle_step db c)))"
    by (auto simp: toggle_step_def split: sum.splits dest: likeOrDislikeEvent_ids)
  then show ?case by (simp add: Cons.IH)
qed

lemma likeOrDislikeEvent_error:
  assumes "likeOrDislikeEvent (Some db) newId now eventId userId reaction = Inl e"
  shows "e = SqliteConstraint \<and> newId \<in> like_id ` set (event_likes db)"
  using assms
  by (auto simp: likeOrDislikeEvent_def getDb_def sql_get_def insert_event_like_def
        find_None_iff split: option.splits sum.splits if_splits)

text \<open>
  Claim C2. From a store with at most one row per (event, user) pair, and so from the
  empty table, every run of toggle calls keeps at most one row for every pair: the bound
  holds after each prefix of the run, whatever the events, users, polarities, identifiers
  and clock readings of the calls are. The count query writes nothing.
\<close>

theorem at_most_one_reaction_per_pair:
  assumes "distinct (map like_pair (event_likes db))"
  shows "length (filter (\<lambda>r. like_event_id r = e \<and> like_user_id r = u)
                   (event_likes (run_toggles db (take n calls)))) \<le> 1"
proof -
  have "distinct (map like_pair (event_likes (run_toggles db (take n calls))))"
    using assms by (rule run_toggles_pairs)
  then have "length (filter (\<lambda>r. like_pair r = (e, u))
                       (event_likes (run_toggles db (take n calls)))) \<le> 1"
    by (rule distinct_key_filter_le_one)
  then show ?thesis by (simp add: like_pair_def)
qed

lemma or_zero_sql_sum: "or_zero (sql_sum xs) = sum_list xs"
  by (simp add: or_zero_def sql_sum_def)

lemma getEventReactions_sums:
  "getEventReactions (Some db) eventId =
     Inr \<lparr>likes = sum_list (map (\<lambda>r. if like_reaction r = 1 then 1 else 0)
                        (filter (\<lambda>r. like_event_id r = eventId) (event_likes db))),
          dislikes = sum_list (map (\<lambda>r. if like_reaction r = - 1 then 1 else 0)
                        (filter (\<lambda>r. like_event_id r = eventId) (event_likes db)))\<rparr>"
  by (simp add: getEventReactions_def getDb_def or_zero_sql_sum Let_def)

lemma find_appended_row:
  "\<forall>r \<in> set rows. \<not> p r \<Longrightarrow> p x \<Longrightarrow> find p (rows @ [x]) = Some x"
  by (induction rows) auto

lemma find_existing_event:
  "eventId \<in> ev_id ` set (events db) \<Longrightarrow>
   \<exists>event. sql_get (\<lambda>r. ev_id r = eventId) (events db) = Some event"
  unfolding sql_get_def
  by (cases "find (\<lambda>r. ev_id r = eventId) (events db)") (auto simp: find_None_iff)

lemma sql_update_appended_row:
  assumes "\<forall>r \<in> set rows. key r \<noteq> key x"
  shows "sql_update (\<lambda>r. key r = key x) upd (rows @ [x]) = rows @ [upd x]"
proof -
  have "map (\<lambda>r. if key r = key x then upd r else r) rows = rows"
    using assms by (induction rows) auto
  then show ?thesis by (simp add: sql_update_def)
qed

lemma first_reaction_inserts:
  assumes ev: "eventId \<in> ev_id ` set (events db)"
    and none: "\<forall>r \<in> set (event_likes db).
                 \<not> (like_event_id r = eventId \<and> like_user_id r = userId)"
    and fresh: "id1 \<notin> like_id ` set (event_likes db)"
  shows "likeOrDislikeEvent (Some db) id1 t1 eventId userId reaction
           = Inr (db\<lparr>event_likes := event_likes db @
                      [\<lparr>like_id = id1, like_event_id = eventId, like_user_id = userId,
                        like_reaction = reaction, like_created_at = t1\<rparr>]\<rparr>,
                  \<lparr>eventExists = True, updated = False\<rparr>)"
proof -
  from ev obtain event where "sql_get (\<lambda>r. ev_id r = eventId) (events db) = Some event"
    using find_existing_event by blast
  moreover from none
  have "sql_get (\<lambda>r. like_event_id r = eventId \<and> like_user_id r = userId) (event_likes db)
          = None"
    by (simp add: sql_get_def find_None_iff)
  moreover from none fresh
  have "insert_event_like
          \<lparr>like_id = id1, like_event_id = eventId, like_user_id = userId,
           like_reaction = reaction, like_created_at = t1\<rparr> (event_likes db)
        = Inr (event_likes db @
                 [\<lparr>like_id = id1, like_event_id = eventId, like_user_id = userId,
                   like_reaction = reaction, like_created_at = t1\<rparr>])"
    by (auto simp: insert_event_like_def)
  ultimately show ?thesis
    by (simp add: likeOrDislikeEvent_def getDb_def)
qed

lemma second_reaction_finds_row:
  assumes "\<forall>r \<in> set rows. \<not> (like_event_id r = eventId \<and> like_user_id r = userId)"
  shows "sql_get (\<lambda>r. like_event_id r = eventId \<and> like_user_id r = userId)
           (rows @ [\<lparr>like_id = id1, like_event_id = eventId, like_user_id = userId,
                     like_reaction = x, like_created_at = t1\<rparr>])
         = Some \<lparr>like_id = id1, like_event_id = eventId, like_user_id = userId,
                  like_reaction = x, like_created_at = t1\<rparr>"
  unfolding sql_get_def using assms by (intro find_appended_row) simp_all

text \<open>
  Claim C7, amended. For an existing event and a user without a reaction to it, two likes
  in a row both return \<^verbatim>\<open>{eventExists: true, updated: false}\<close>, the second call leaves
  the store as the first one left it, and the counts of the event afterwards are its
  counts before with one more like: exactly \<^verbatim>\<open>{likes: 1, dislikes: 0}\<close> when no user
  had reacted to the event before.
\<close>

theorem toggle_like_twice:
  assumes ev: "eventId \<in> ev_id ` set (events db)"
    and none: "\<forall>r \<in> set (event_likes db).
                 \<not> (like_event_id r = eventId \<and> like_user_id r = userId)"
    and fresh: "id1 \<notin> like_id ` set (event_likes db)"
    and before: "getEventReactions (Some db) eventId = Inr before"
    and db1: "db1 = db\<lparr>event_likes := event_likes db @
                      [\<lparr>like_id = id1, like_event_id = eventId, like_user_id = userId,
                        like_reaction = 1, like_created_at = t1\<rparr>]\<rparr>"
  shows "likeOrDislikeEvent (Some db) id1 t1 eventId userId 1
           = Inr (db1, \<lparr>eventExists = True, updated = False\<rparr>)
       \<and> likeOrDislikeEvent (Some db1) id2 t2 eventId userId 1
           = Inr (db1, \<lparr>eventExists = True, updated = False\<rparr>)
       \<and> getEventReactions (Some db1) eventId
           = Inr \<lparr>likes = likes before + 1, dislikes = dislikes before\<rparr>
       \<and> ((\<forall>r \<in> set (event_likes db). like_event_id r \<noteq> eventId) \<longrightarrow>
            getEventReactions (Some db1) eventId = Inr \<lparr>likes = 1, dislikes = 0\<rparr>)"
proof -
  have first: "likeOrDislikeEvent (Some db) id1 t1 eventId userId 1
                 = Inr (db1, \<lparr>eventExists = True, updated = False\<rparr>)"
    unfolding db1 using ev none fresh by (rule first_reaction_inserts)
  from ev obtain event where event: "sql_get (\<lambda>r. ev_id r = eventId) (events db) = Some event"
    using find_existing_event by blast
  have second: "likeOrDislikeEvent (Some db1) id2 t2 eventId userId 1
                  = Inr (db1, \<lparr>eventExists = True, updated = False\<rparr>)"
    using event second_reaction_finds_row [OF none, of id1 1 t1]
    by (simp add: likeOrDislikeEvent_def getDb_def db1)
  have counts: "getEventReactions (Some db1) eventId
                  = Inr \<lparr>likes = likes before + 1, dislikes = dislikes before\<rparr>"
    using before by (auto simp: getEventReactions_sums db1)
  have "getEventReactions (Some db1) eventId = Inr \<lparr>likes = 1, dislikes = 0\<rparr>"
    if "\<forall>r \<in> set (event_likes db). like_event_id r \<noteq> eventId"
  proof -
    from that have "filter (\<lambda>r. like_event_id r = eventId) (event_likes db) = []"
      by (simp add: filter_empty_conv)
    then show ?thesis by (simp add: getEventReactions_sums db1)
  qed
  with first second counts show ?thesis by blast
qed

text \<open>
  Claim C8, amended. For an existing event and a user without a reaction to it, a like
  followed by a dislike returns \<^verbatim>\<open>{true, false}\<close> and then \<^verbatim>\<open>{true, true}\<close>; the
  dislike rewrites the row the like has added, so the table has gained one row, and the
  counts of the event afterwards are its counts before with one more dislike and no more
  like: exactly \<^verbatim>\<open>{likes: 0, dislikes: 1}\<close> when no user had reacted to the event before.
\<close>

theorem toggle_like_then_dislike:
  assumes ev: "eventId \<in> ev_id ` set (events db)"
    and none: "\<forall>r \<in> set (event_likes db).
                 \<not> (like_event_id r = eventId \<and> like_user_id r = userId)"
    and fresh: "id1 \<notin> like_id ` set (event_likes db)"
    and before: "getEventReactions (Some db) eventId = Inr before"
    and db1: "db1 = db\<lparr>event_likes := event_likes db @
                      [\<lparr>like_id = id1, like_event_id = eventId, like_user_id = userId,
                        like_reaction = 1, like_created_at = t1\<rparr>]\<rparr>"
    and db2: "db2 = db\<lparr>event_likes := event_likes db @
                      [\<lparr>like_id = id1, like_event_id = eventId, like_user_id = userId,
                        like_reaction = - 1, like_created_at = t2\<rparr>]\<rparr>"
  shows "likeOrDislikeEvent (Some db) id1 t1 eventId userId 1
           = Inr (db1, \<lparr>eventExists = True, updated = False\<rparr>)
       \<and> likeOrDislikeEvent (Some db1) id2 t2 eventId userId (- 1)
           = Inr (db2, \<lparr>eventExists = True, updated = True\<rparr>)
       \<and> getEventReactions (Some db2) eventId
           = Inr \<lparr>likes = likes before, dislikes = dislikes before + 1\<rparr>
       \<and> ((\<forall>r \<in> set (event_likes db). like_event_id r \<noteq> eventId) \<longrightarrow>
            getEventReactions (Some db2) eventId = Inr \<lparr>likes = 0, dislikes = 1\<rparr>)"
proof -
  let ?row = "\<lparr>like_id = id1, like_event_id = eventId, like_user_id = userId,
               like_reaction = 1, like_created_at = t1\<rparr>"
  have first: "likeOrDislikeEvent (Some db) id1 t1 eventId userId 1
                 = Inr (db1, \<lparr>eventExists = True, updated = False\<rparr>)"
    unfolding db1 using ev none fresh by (rule first_reaction_inserts)
  from ev obtain event where event: "sql_get (\<lambda>r. ev_id r = eventId) (events db) = Some event"
    using find_existing_event by blast
  from fresh have "\<forall>r \<in> set (event_likes db). like_id r \<noteq> like_id ?row"
    by auto
  then have upd: "sql_update (\<lambda>r. like_id r = like_id ?row)
            (\<lambda>r. r\<lparr>like_reaction := - 1, like_created_at := t2\<rparr>) (event_likes db @ [?row])
          = event_likes db @ [?row\<lparr>like_reaction := - 1, like_created_at := t2\<rparr>]"
    by (rule sql_update_appended_row)
  have second: "likeOrDislikeEvent (Some db1) id2 t2 eventId userId (- 1)
                  = Inr (db2, \<lparr>eventExists = True, updated = True\<rparr>)"
    using event second_reaction_finds_row [OF none, of id1 1 t1] upd
    by (simp add: likeOrDislikeEvent_def getDb_def db1 db2)
  have counts: "getEventReactions (Some db2) eventId
                  = Inr \<lparr>likes = likes before, dislikes = dislikes before + 1\<rparr>"
    using before by (auto simp: getEventReactions_sums db2)
  have "getEventReactions (Some db2) eventId = Inr \<lparr>likes = 0, dislikes = 1\<rparr>"
    if "\<forall>r \<in> set (event_likes db). like_event_id r \<noteq> eventId"
  proof -
    from that have "filter (\<lambda>r. like_event_id r = eventId) (event_likes db) = []"
      by (simp add: filter_empty_conv)
    then show ?thesis by (simp add: getEventReactions_sums db2)
  qed
  with first second counts show ?thesis by blast
qed

text \<open>The refinement at work on the example store: a dislike by \<^verbatim>\<open>u2\<close> overwrites the row of their like, a like by \<^verbatim>\<open>u1\<close> appends a row.\<close>

theorem likeOrDislikeEvent_follows_toggle_spec_witness:
  "distinct (map like_id (event_likes ex_db))
   \<and> ''r2'' \<notin> like_id ` set (event_likes ex_db)
   \<and> likeOrDislikeEvent (Some ex_db) ''r2'' 9 ''e1'' ''u2'' (- 1)
       = Inr (ex_db\<lparr>event_likes :=
                     [\<lparr>like_id = ''r1'', like_event_id = ''e1'', like_user_id = ''u2'',
                       like_reaction = - 1, like_created_at = 9\<rparr>]\<rparr>,
              \<lparr>eventExists = True, updated = True\<rparr>)
   \<and> likeOrDislikeEvent (Some ex_db) ''r2'' 9 ''e1'' ''u1'' 1
       = Inr (ex_db\<lparr>event_likes :=
                     [\<lparr>like_id = ''r1'', like_event_id = ''e1'', like_user_id = ''u2'',
                       like_reaction = 1, like_created_at = 5\<rparr>,
                      \<lparr>like_id = ''r2'', like_event_id = ''e1'', like_user_id = ''u1'',
                       like_reaction = 1, like_created_at = 9\<rparr>]\<rparr>,
              \<lparr>eventExists = True, updated = False\<rparr>)"
proof -
  have ids: "distinct (map like_id (event_likes ex_db))"
    and fresh: "''r2'' \<notin> like_id ` set (event_likes ex_db)"
    by (simp_all add: ex_db_def)
  show ?thesis
    using ids fresh
      likeOrDislikeEvent_follows_toggle_spec [OF ids fresh, of 9 "''e1''" "''u2''" "- 1"]
      likeOrDislikeEvent_follows_toggle_spec [OF ids fresh, of 9 "''e1''" "''u1''" 1]
    by (simp add: toggle_spec_def ex_db_def ex_event_def)
qed

text \<open>The invariant on a run of two opposite reactions of \<^verbatim>\<open>u2\<close> on the example store.\<close>

theorem at_most_one_reaction_per_pair_witness:
  "distinct (map like_pair (event_likes ex_db))
   \<and> length (filter (\<lambda>r. like_event_id r = ''e1'' \<and> like_user_id r = ''u2'')
        (event_likes (run_toggles ex_db (take 2
           [\<lparr>call_newId = ''r2'', call_now = 9, call_eventId = ''e1'', call_userId = ''u2'',
             call_reaction = - 1\<rparr>,
            \<lparr>call_newId = ''r3'', call_now = 10, call_eventId = ''e1'', call_userId = ''u2'',
             call_reaction = 1\<rparr>])))) \<le> 1"
proof -
  have pairs: "distinct (map like_pair (event_likes ex_db))"
    by (simp add: ex_db_def)
  from pairs at_most_one_reaction_per_pair [OF pairs] show ?thesis
    by blast
qed

text \<open>With the like of another user already in the table, two likes by \<^verbatim>\<open>u1\<close>, who had not reacted, leave the counts of the event at two likes, not one.\<close>

theorem toggle_like_twice_counterexample:
  "(''e1'', ''u1'') \<notin> set (map like_pair (event_likes ex_db))
   \<and> likeOrDislikeEvent (Some ex_db) ''r2'' 9 ''e1'' ''u1'' 1
       = Inr (ex_db\<lparr>event_likes := event_likes ex_db @
                     [\<lparr>like_id = ''r2'', like_event_id = ''e1'', like_user_id = ''u1'',
                       like_reaction = 1, like_created_at = 9\<rparr>]\<rparr>,
              \<lparr>eventExists = True, updated = False\<rparr>)
   \<and> likeOrDislikeEvent
         (Some (ex_db\<lparr>event_likes := event_likes ex_db @
                     [\<lparr>like_id = ''r2'', like_event_id = ''e1'', like_user_id = ''u1'',
                       like_reaction = 1, like_created_at = 9\<rparr>]\<rparr>)) ''r3'' 10 ''e1'' ''u1'' 1
       = Inr (ex_db\<lparr>event_likes := event_likes ex_db @
                     [\<lparr>like_id = ''r2'', like_event_id = ''e1'', like_user_id = ''u1'',
                       like_reaction = 1, like_created_at = 9\<rparr>]\<rparr>,
              \<lparr>eventExists = True, updated = False\<rparr>)
   \<and> getEventReactions
         (Some (ex_db\<lparr>event_likes := event_likes ex_db @
                     [\<lparr>like_id = ''r2'', like_event_id = ''e1'', like_user_id = ''u1'',
                       like_reaction = 1, like_created_at = 9\<rparr>]\<rparr>)) ''e1''
       = Inr \<lparr>likes = 2, dislikes = 0\<rparr>"
  by (simp add: likeOrDislikeEvent_def getEventReactions_def getDb_def sql_get_def
        insert_event_like_def sql_sum_def or_zero_def like_pair_def ex_db_def ex_event_def)

text \<open>With the like of another user already in the table, a like and then a dislike by \<^verbatim>\<open>u1\<close>, who had not reacted, leave the counts of the event at one like and one dislike.\<close>

theorem toggle_like_then_dislike_counterexample:
  "(''e1'', ''u1'') \<notin> set (map like_pair (event_likes ex_db))
   \<and> likeOrDislikeEvent (Some ex_db) ''r2'' 9 ''e1'' ''u1'' 1
       = Inr (ex_db\<lparr>event_likes := event_likes ex_db @
                     [\<lparr>like_id = ''r2'', like_event_id = ''e1'', like_user_id = ''u1'',
                       like_reaction = 1, like_created_at = 9\<rparr>]\<rparr>,
              \<lparr>eventExists = True, updated = False\<rparr>)
   \<and> likeOrDislikeEvent
         (Some (ex_db\<lparr>event_likes := event_likes ex_db @
                     [\<lparr>like_id = ''r2'', like_event_id = ''e1'', like_user_id = ''u1'',
                       like_reaction = 1, like_created_at = 9\<rparr>]\<rparr>)) ''r3'' 10 ''e1'' ''u1'' (- 1)
       = Inr (ex_db\<lparr>event_likes := event_likes ex_db @
                     [\<lparr>like_id = ''r2'', like_event_id = ''e1'', like_user_id = ''u1'',
                       like_reaction = - 1, like_created_at = 10\<rparr>]\<rparr>,
              \<lparr>eventExists = True, updated = True\<rparr>)
   \<and> getEventReactions
         (Some (ex_db\<lparr>event_likes := event_likes ex_db @
                     [\<lparr>like_id = ''r2'', like_event_id = ''e1'', like_user_id = ''u1'',
                       like_reaction = - 1, like_created_at = 10\<rparr>]\<rparr>)) ''e1''
       = Inr \<lparr>likes = 1, dislikes = 1\<rparr>"
  by (simp add: likeOrDislikeEvent_def getEventReactions_def getDb_def sql_get_def
        insert_event_like_def sql_update_def sql_sum_def or_zero_def like_pair_def ex_db_def
        ex_event_def)

text \<open>Two likes on an event without reactions.\<close>

theorem toggle_like_twice_witness:
  "ex_db_no_reactions = \<lparr>events = [ex_event], event_likes = [], user_tokens = []\<rparr>
   \<and> likeOrDislikeEvent (Some ex_db_no_reactions) ''r1'' 9 ''e1'' ''u1'' 1
       = Inr (\<lparr>events = [ex_event],
               event_likes = [\<lparr>like_id = ''r1'', like_event_id = ''e1'', like_user_id = ''u1'',
                               like_reaction = 1, like_created_at = 9\<rparr>],
               user_tokens = []\<rparr>,
              \<lparr>eventExists = True, updated = False\<rparr>)
   \<and> likeOrDislikeEvent
         (Some \<lparr>events = [ex_event],
               event_likes = [\<lparr>like_id = ''r1'', like_event_id = ''e1'', like_user_id = ''u1'',
                               like_reaction = 1, like_created_at = 9\<rparr>],
               user_tokens = []\<rparr>) ''r2'' 10 ''e1'' ''u1'' 1
       = Inr (\<lparr>events = [ex_event],
               event_likes = [\<lparr>like_id = ''r1'', like_event_id = ''e1'', like_user_id = ''u1'',
                               like_reaction = 1, like_created_at = 9\<rparr>],
               user_tokens = []\<rparr>,
              \<lparr>eventExists = True, updated = False\<rparr>)
   \<and> getEventReactions
         (Some \<lparr>events = [ex_event],
               event_likes = [\<lparr>like_id = ''r1'', like_event_id = ''e1'', like_user_id = ''u1'',
                               like_reaction = 1, like_created_at = 9\<rparr>],
               user_tokens = []\<rparr>) ''e1''
       = Inr \<lparr>likes = 1, dislikes = 0\<rparr>"
proof -
  let ?db1 = "\<lparr>events = [ex_event],
               event_likes = [\<lparr>like_id = ''r1'', like_event_id = ''e1'', like_user_id = ''u1'',
                               like_reaction = 1, like_created_at = 9\<rparr>],
               user_tokens = []\<rparr>"
  have ev: "''e1'' \<in> ev_id ` set (events ex_db_no_reactions)"
    by (simp add: ex_db_no_reactions_def ex_event_def)
  have none: "\<forall>r \<in> set (event_likes ex_db_no_reactions).
                \<not> (like_event_id r = ''e1'' \<and> like_user_id r = ''u1'')"
    by (simp add: ex_db_no_reactions_def)
  have fresh: "''r1'' \<notin> like_id ` set (event_likes ex_db_no_reactions)"
    by (simp add: ex_db_no_reactions_def)
  have before: "getEventReactions (Some ex_db_no_reactions) ''e1''
                  = Inr \<lparr>likes = 0, dislikes = 0\<rparr>"
    by (simp add: getEventReactions_def getDb_def sql_sum_def or_zero_def
          ex_db_no_reactions_def)
  have db1: "?db1 = ex_db_no_reactions\<lparr>event_likes := event_likes ex_db_no_reactions @
                      [\<lparr>like_id = ''r1'', like_event_id = ''e1'', like_user_id = ''u1'',
                        like_reaction = 1, like_created_at = 9\<rparr>]\<rparr>"
    by (simp add: ex_db_no_reactions_def)
  have "\<forall>r \<in> set (event_likes ex_db_no_reactions). like_event_id r \<noteq> ''e1''"
    by (simp add: ex_db_no_reactions_def)
  with toggle_like_twice [OF ev none fresh before db1, of "''r2''" 10] show ?thesis
    by (simp add: ex_db_no_reactions_def)
qed

text \<open>A like and then a dislike on an event without reactions.\<close>

theorem toggle_like_then_dislike_witness:
  "ex_db_no_reactions = \<lparr>events = [ex_event], event_likes = [], user_tokens = []\<rparr>
   \<and> likeOrDislikeEvent (Some ex_db_no_reactions) ''r1'' 9 ''e1'' ''u1'' 1
       = Inr (\<lparr>events = [ex_event],
               event_likes = [\<lparr>like_id = ''r1'', like_event_id = ''e1'', like_user_id = ''u1'',
                               like_reaction = 1, like_created_at = 9\<rparr>],
               user_tokens = []\<rparr>,
              \<lparr>eventExists = True, updated = False\<rparr>)
   \<and> likeOrDislikeEvent
         (Some \<lparr>events = [ex_event],
               event_likes = [\<lparr>like_id = ''r1'', like_event_id = ''e1'', like_user_id = ''u1'',
                               like_reaction = 1, like_created_at = 9\<rparr>],
               user_tokens = []\<rparr>) ''r2'' 10 ''e1'' ''u1'' (- 1)
       = Inr (\<lparr>events = [ex_event],
               event_likes = [\<lparr>like_id = ''r1'', like_event_id = ''e1'', like_user_id = ''u1'',
                               like_reaction = - 1, like_created_at = 10\<rparr>],
               user_tokens = []\<rparr>,
              \<lparr>eventExists = True, updated = True\<rparr>)
   \<and> getEventReactions
         (Some \<lparr>events = [ex_event],
               event_likes = [\<lparr>like_id = ''r1'', like_event_id = ''e1'', like_user_id = ''u1'',
                               like_reaction = - 1, like_created_at = 10\<rparr>],
               user_tokens = []\<rparr>) ''e1''
       = Inr \<lparr>likes = 0, dislikes = 1\<rparr>"
proof -
  let ?db1 = "\<lparr>events = [ex_event],
               event_likes = [\<lparr>like_id = ''r1'', like_event_id = ''e1'', like_user_id = ''u1'',
                               like_reaction = 1, like_created_at = 9\<rparr>],
               user_tokens = []\<rparr>"
  let ?db2 = "\<lparr>events = [ex_event],
               event_likes = [\<lparr>like_id = ''r1'', like_event_id = ''e1'', like_user_id = ''u1'',
                               like_reaction = - 1, like_created_at = 10\<rparr>],
               user_tokens = []\<rparr>"
  have ev: "''e1'' \<in> ev_id ` set (events ex_db_no_reactions)"
    by (simp add: ex_db_no_reactions_def ex_event_def)
  have none: "\<forall>r \<in> set (event_likes ex_db_no_reactions).
                \<not> (like_event_id r = ''e1'' \<and> like_user_id r = ''u1'')"
    by (simp add: ex_db_no_reactions_def)
  have fresh: "''r1'' \<notin> like_id ` set (event_likes ex_db_no_reactions)"
    by (simp add: ex_db_no_reactions_def)
  have before: "getEventReactions (Some ex_db_no_reactions) ''e1''
                  = Inr \<lparr>likes = 0, dislikes = 0\<rparr>"
    by (simp add: getEventReactions_def getDb_def sql_sum_def or_zero_def
          ex_db_no_reactions_def)
  have db1: "?db1 = ex_db_no_reactions\<lparr>event_likes := event_likes ex_db_no_reactions @
                      [\<lparr>like_id = ''r1'', like_event_id = ''e1'', like_user_id = ''u1'',
                        like_reaction = 1, like_created_at = 9\<rparr>]\<rparr>"
    by (simp add: ex_db_no_reactions_def)
  have db2: "?db2 = ex_db_no_reactions\<lparr>event_likes := event_likes ex_db_no_reactions @
                      [\<lparr>like_id = ''r1'', like_event_id = ''e1'', like_user_id = ''u1'',
                        like_reaction = - 1, like_created_at = 10\<rparr>]\<rparr>"
    by (simp add: ex_db_no_reactions_def)
  have "\<forall>r \<in> set (event_likes ex_db_no_reactions). like_event_id r \<noteq> ''e1''"
    by (simp add: ex_db_no_reactions_def)
  with toggle_like_then_dislike [OF ev none fresh before db1 db2, of "''r2''"] show ?thesis
    by (simp add: ex_db_no_reactions_def)
qed

section \<open>Authentication and revocation\<close>

lemma find_after_delete:
  assumes "\<And>r. p r \<Longrightarrow> \<not> wh r"
  shows "sql_get p (sql_delete wh rows) = sql_get p rows"
  using assms unfolding sql_get_def sql_delete_def
  by (induction rows) auto

lemma find_deleted:
  assumes "\<forall>r. p r \<longrightarrow> wh r"
  shows "sql_get p (sql_delete wh rows) = None"
  using assms unfolding sql_get_def sql_delete_def
  by (auto simp: find_None_iff)

lemma sql_delete_absent:
  "\<forall>r \<in> set rows. \<not> wh r \<Longrightarrow> sql_delete wh rows = rows"
  unfolding sql_delete_def by (induction rows) auto

lemma authenticateJWT_bearer:
  assumes "prefix ''Bearer '' h" and "header_token h = Some token"
  shows "authenticateJWT jwt_verify env now dbInstance (Some h) =
           (case jwt_verify token env now of
              None \<Rightarrow> (Status401 ''Invalid or expired token'', [])
            | Some payload \<Rightarrow>
                (case getDb dbInstance of
                   Inl e \<Rightarrow> (NextError e, [])
                 | Inr db \<Rightarrow>
                     (case sql_get (\<lambda>r. tok_id r = jti payload \<and> tok_token r = token)
                             (user_tokens db) of
                        None \<Rightarrow> (Status401 ''Token not recognized or revoked'',
                                 [SelectUserToken (jti payload) token])
                      | Some tokenRow \<Rightarrow>
                          (NextUser (sub payload), [SelectUserToken (jti payload) token]))))"
  using assms by (simp add: authenticateJWT_def split: option.splits)

text \<open>
  Claim C9. When the verification of the presented token fails, \<^verbatim>\<open>authenticateJWT\<close>
  answers "Invalid or expired token" and has read nothing from the store, whatever the
  state of the store handle is. Whenever a call has read the store, the verification of the
  presented token had succeeded, and the read is the single lookup of that token under the
  identifier of its verified payload.
\<close>

theorem verification_precedes_ledger:
  "(prefix ''Bearer '' h \<and> header_token h = Some token \<and> jwt_verify token env now = None
      \<longrightarrow> authenticateJWT jwt_verify env now dbInstance (Some h)
            = (InvalidSignatureOrExpired, []))
   \<and> (snd (authenticateJWT jwt_verify env now dbInstance authorization) \<noteq> []
      \<longrightarrow> (\<exists>h' t p. authorization = Some h' \<and> prefix ''Bearer '' h'
             \<and> header_token h' = Some t \<and> jwt_verify t env now = Some p
             \<and> snd (authenticateJWT jwt_verify env now dbInstance authorization)
                 = [SelectUserToken (jti p) t]))"
proof (intro conjI impI)
  assume "prefix ''Bearer '' h \<and> header_token h = Some token \<and> jwt_verify token env now = None"
  then show "authenticateJWT jwt_verify env now dbInstance (Some h)
               = (InvalidSignatureOrExpired, [])"
    by (simp add: authenticateJWT_bearer InvalidSignatureOrExpired_def)
next
  assume reads: "snd (authenticateJWT jwt_verify env now dbInstance authorization) \<noteq> []"
  then obtain h' where h': "authorization = Some h'" and pre: "prefix ''Bearer '' h'"
    by (cases authorization) (auto simp: authenticateJWT_def split: if_splits)
  from reads h' pre obtain t where t: "header_token h' = Some t"
    by (cases "header_token h'") (auto simp: authenticateJWT_def)
  from reads h' obtain p where p: "jwt_verify t env now = Some p"
    by (cases "jwt_verify t env now") (auto simp: authenticateJWT_bearer [OF pre t])
  from reads have "snd (authenticateJWT jwt_verify env now dbInstance authorization)
                     = [SelectUserToken (jti p) t]"
    unfolding h' authenticateJWT_bearer [OF pre t] p
    by (auto split: sum.splits option.splits)
  with h' pre t p show "\<exists>h' t p. authorization = Some h' \<and> prefix ''Bearer '' h'
             \<and> header_token h' = Some t \<and> jwt_verify t env now = Some p
             \<and> snd (authenticateJWT jwt_verify env now dbInstance authorization)
                 = [SelectUserToken (jti p) t]"
    by blast
qed

lemma revokeToken_result:
  "revokeToken (Some db) token
     = Inr (db\<lparr>user_tokens := sql_delete (\<lambda>r. tok_token r = token) (user_tokens db)\<rparr>)"
  by (simp add: revokeToken_def getDb_def)

lemma revokeToken_again:
  "revokeToken
     (Some (db\<lparr>user_tokens := sql_delete (\<lambda>r. tok_token r = token) (user_tokens db)\<rparr>)) token
     = Inr (db\<lparr>user_tokens := sql_delete (\<lambda>r. tok_token r = token) (user_tokens db)\<rparr>)"
proof -
  have "\<forall>r \<in> set (sql_delete (\<lambda>r. tok_token r = token) (user_tokens db)).
          \<not> tok_token r = token"
    by (simp add: sql_delete_def)
  then have "sql_delete (\<lambda>r. tok_token r = token)
               (sql_delete (\<lambda>r. tok_token r = token) (user_tokens db))
             = sql_delete (\<lambda>r. tok_token r = token) (user_tokens db)"
    by (rule sql_delete_absent)
  then show ?thesis
    by (simp add: revokeToken_def getDb_def)
qed

lemma authenticate_absent_token:
  assumes pre: "prefix ''Bearer '' h" and tok: "header_token h = Some token"
    and absent: "\<forall>r \<in> set (user_tokens later). tok_token r \<noteq> token"
  shows "authenticateJWT jwt_verify env now (Some later) (Some h)
         = (case jwt_verify token env now of
              None \<Rightarrow> (InvalidSignatureOrExpired, [])
            | Some p \<Rightarrow> (NotRecognized, [SelectUserToken (jti p) token]))"
proof (cases "jwt_verify token env now")
  case None
  then show ?thesis
    by (simp add: authenticateJWT_bearer [OF pre tok] InvalidSignatureOrExpired_def)
next
  case (Some p)
  from absent have "sql_get (\<lambda>r. tok_id r = jti p \<and> tok_token r = token) (user_tokens later)
                      = None"
    by (simp add: sql_get_def find_None_iff)
  with Some show ?thesis
    by (simp add: authenticateJWT_bearer [OF pre tok] getDb_def NotRecognized_def)
qed

lemma authenticate_other_after_revoke:
  assumes pre: "prefix ''Bearer '' h" and tok: "header_token h = Some other"
    and neq: "other \<noteq> token"
  shows "authenticateJWT jwt_verify env now
           (Some (db\<lparr>user_tokens := sql_delete (\<lambda>r. tok_token r = token) (user_tokens db)\<rparr>))
           (Some h)
         = authenticateJWT jwt_verify env now (Some db) (Some h)"
proof (cases "jwt_verify other env now")
  case None
  then show ?thesis
    by (simp add: authenticateJWT_bearer [OF pre tok])
next
  case (Some p)
  have "sql_get (\<lambda>r. tok_id r = jti p \<and> tok_token r = other)
          (sql_delete (\<lambda>r. tok_token r = token) (user_tokens db))
        = sql_get (\<lambda>r. tok_id r = jti p \<and> tok_token r = other) (user_tokens db)"
    using neq by (intro find_after_delete) auto
  with Some show ?thesis
    by (simp add: authenticateJWT_bearer [OF pre tok] getDb_def)
qed

text \<open>
  Claim C10. \<^verbatim>\<open>revokeToken\<close> succeeds on an initialised store, leaves the other tables
  alone and keeps, in order, exactly the session rows whose token string differs from the
  presented one. A credential carrying any other token is answered after the revocation as
  it was before.
\<close>

theorem revocation_is_scoped:
  "\<exists>db'. revokeToken (Some db) token = Inr db'
     \<and> events db' = events db \<and> event_likes db' = event_likes db
     \<and> user_tokens db' = filter (\<lambda>r. tok_token r \<noteq> token) (user_tokens db)
     \<and> (\<forall>r. r \<in> set (user_tokens db') \<longleftrightarrow> r \<in> set (user_tokens db) \<and> tok_token r \<noteq> token)
     \<and> (\<forall>h other. prefix ''Bearer '' h \<and> header_token h = Some other \<and> other \<noteq> token
           \<longrightarrow> authenticateJWT jwt_verify env now (Some db') (Some h)
               = authenticateJWT jwt_verify env now (Some db) (Some h))"
proof (intro exI conjI allI impI)
  show "revokeToken (Some db) token
          = Inr (db\<lparr>user_tokens := sql_delete (\<lambda>r. tok_token r = token) (user_tokens db)\<rparr>)"
    by (rule revokeToken_result)
  show "events (db\<lparr>user_tokens := sql_delete (\<lambda>r. tok_token r = token) (user_tokens db)\<rparr>)
          = events db"
    by simp
  show "event_likes (db\<lparr>user_tokens := sql_delete (\<lambda>r. tok_token r = token) (user_tokens db)\<rparr>)
          = event_likes db"
    by simp
  show "user_tokens (db\<lparr>user_tokens := sql_delete (\<lambda>r. tok_token r = token) (user_tokens db)\<rparr>)
          = filter (\<lambda>r. tok_token r \<noteq> token) (user_tokens db)"
    by (simp add: sql_delete_def)
  show "r \<in> set (user_tokens
                  (db\<lparr>user_tokens := sql_delete (\<lambda>r. tok_token r = token) (user_tokens db)\<rparr>))
          \<longleftrightarrow> r \<in> set (user_tokens db) \<and> tok_token r \<noteq> token" for r
    by (simp add: sql_delete_def)
  show "authenticateJWT jwt_verify env now
          (Some (db\<lparr>user_tokens := sql_delete (\<lambda>r. tok_token r = token) (user_tokens db)\<rparr>))
          (Some h)
        = authenticateJWT jwt_verify env now (Some db) (Some h)"
    if "prefix ''Bearer '' h \<and> header_token h = Some other \<and> other \<noteq> token" for h other
    using that by (intro authenticate_other_after_revoke) auto
qed

text \<open>
  Claim C5, amended. After the token presented in a header has been revoked, no row holds
  it and the lookup of the token finds no row under any identifier. On that store, and on
  every later store that does not hold the token, an authentication with the header fails:
  with "Token not recognized or revoked" as long as the token passes the verification of
  signature and expiry, with "Invalid or expired token" once it does not. Revoking the
  token again is not an error and changes nothing.
\<close>

theorem revocation_is_immediate:
  assumes pre: "prefix ''Bearer '' h" and tok: "header_token h = Some token"
  shows "\<exists>db'. revokeToken (Some db) token = Inr db'
     \<and> (\<forall>r \<in> set (user_tokens db'). tok_token r \<noteq> token)
     \<and> sql_get (\<lambda>r. tok_id r = tokenId \<and> tok_token r = token) (user_tokens db') = None
     \<and> (\<forall>later. (\<forall>r \<in> set (user_tokens later). tok_token r \<noteq> token) \<longrightarrow>
           authenticateJWT jwt_verify env now (Some later) (Some h)
             = (case jwt_verify token env now of
                  None \<Rightarrow> (InvalidSignatureOrExpired, [])
                | Some p \<Rightarrow> (NotRecognized, [SelectUserToken (jti p) token])))
     \<and> revokeToken (Some db') token = Inr db'"
proof (intro exI conjI allI impI)
  show "revokeToken (Some db) token
          = Inr (db\<lparr>user_tokens := sql_delete (\<lambda>r. tok_token r = token) (user_tokens db)\<rparr>)"
    by (rule revokeToken_result)
  show "\<forall>r \<in> set (user_tokens
                    (db\<lparr>user_tokens := sql_delete (\<lambda>r. tok_token r = token) (user_tokens db)\<rparr>)).
          tok_token r \<noteq> token"
    by (simp add: sql_delete_def)
  show "sql_get (\<lambda>r. tok_id r = tokenId \<and> tok_token r = token)
          (user_tokens (db\<lparr>user_tokens := sql_delete (\<lambda>r. tok_token r = token) (user_tokens db)\<rparr>))
        = None"
    by (simp add: find_deleted)
  show "authenticateJWT jwt_verify env now (Some later) (Some h)
        = (case jwt_verify token env now of
              None \<Rightarrow> (InvalidSignatureOrExpired, [])
            | Some p \<Rightarrow> (NotRecognized, [SelectUserToken (jti p) token]))"
    if "\<forall>r \<in> set (user_tokens later). tok_token r \<noteq> token" for later
    using pre tok that by (rule authenticate_absent_token)
  show "revokeToken
          (Some (db\<lparr>user_tokens := sql_delete (\<lambda>r. tok_token r = token) (user_tokens db)\<rparr>)) token
        = Inr (db\<lparr>user_tokens := sql_delete (\<lambda>r. tok_token r = token) (user_tokens db)\<rparr>)"
    by (rule revokeToken_again)
qed

lemma sql_get_rewritten_rows:
  assumes "\<And>r. wh (g r) = wh r"
  shows "sql_get wh (map g rows) = map_option g (sql_get wh rows)"
  unfolding sql_get_def using assms by (induction rows) auto

lemma authenticateJWT_ignores_stored_expiry:
  "authenticateJWT jwt_verify env now
     (Some (db\<lparr>user_tokens := map (\<lambda>r. r\<lparr>tok_expires_at := f r\<rparr>) (user_tokens db)\<rparr>))
     authorization
   = authenticateJWT jwt_verify env now (Some db) authorization"
proof -
  have "sql_get (\<lambda>r. tok_id r = j \<and> tok_token r = t)
          (map (\<lambda>r. r\<lparr>tok_expires_at := f r\<rparr>) (user_tokens db))
        = map_option (\<lambda>r. r\<lparr>tok_expires_at := f r\<rparr>)
            (sql_get (\<lambda>r. tok_id r = j \<and> tok_token r = t) (user_tokens db))" for j t
    by (rule sql_get_rewritten_rows) simp
  then show ?thesis
    by (simp add: authenticateJWT_def getDb_def split: option.splits)
qed

text \<open>
  Claim C3, amended. Let signing and decoding of tokens be inverse to each other. The row
  that \<^verbatim>\<open>generateAndStoreToken\<close> writes holds the token it returns, and its stored expiry
  is the expiry embedded in that token. Once the stored time has passed, a credential
  carrying the token is rejected with "Invalid or expired token" by the verification of
  the token, before the store is read and whatever the store holds by then. Before that
  time the presence of a row with the identifier and the token decides: the user is
  accepted on a store that holds such a row and answered "Token not recognized or revoked"
  on a store that does not. The stored time itself is never compared: rewriting the
  stored expiry times of a store in any way changes the answer to no credential.
\<close>

theorem issued_token_rejected_after_expiry:
  assumes issue: "generateAndStoreToken jwt_sign env dbInstance tokenId t0 userId deviceInfo
                    = Inr (db1, token)"
    and codec: "\<forall>p s. decode (jwt_sign p s) = Some (p, s)"
    and row: "r \<in> set (user_tokens db1)" and rid: "tok_id r = tokenId"
    and pre: "prefix ''Bearer '' h" and tok: "header_token h = Some token"
  shows "tok_token r = token
     \<and> (\<exists>payload. decode token = Some (payload, config_JWT_SECRET env)
            \<and> tok_expires_at r = exp payload * 1000)
     \<and> (tok_expires_at r \<le> now \<longrightarrow>
           authenticateJWT (jsonwebtoken_verify decode) env now db_later (Some h)
             = (InvalidSignatureOrExpired, []))
     \<and> (now < tok_expires_at r \<longrightarrow>
           authenticateJWT (jsonwebtoken_verify decode) env now (Some db) (Some h)
             = (if \<exists>x \<in> set (user_tokens db). tok_id x = tokenId \<and> tok_token x = token
                then NextUser userId else NotRecognized,
                [SelectUserToken tokenId token]))
     \<and> authenticateJWT any_verify any_env any_now
           (Some (db\<lparr>user_tokens :=
                       map (\<lambda>x. x\<lparr>tok_expires_at := f x\<rparr>) (user_tokens db)\<rparr>))
           authorization
         = authenticateJWT any_verify any_env any_now (Some db) authorization"
proof -
  let ?payload = "\<lparr>sub = userId, jti = tokenId, iat = t0 div 1000,
                    exp = t0 div 1000 + TOKEN_EXPIRES_IN\<rparr>"
  from issue obtain db0 where db0: "dbInstance = Some db0"
    and secret: "config_JWT_SECRET env \<noteq> []"
    and token: "token = jwt_sign ?payload (config_JWT_SECRET env)"
    and fresh: "\<forall>x \<in> set (user_tokens db0). tok_id x \<noteq> tokenId"
    and rows: "user_tokens db1 = user_tokens db0 @
                 [\<lparr>tok_id = tokenId, tok_user_id = userId, tok_token = token,
                   tok_expires_at = (t0 div 1000 + TOKEN_EXPIRES_IN) * 1000,
                   tok_issued_at = t0 div 1000 * 1000\<rparr>]"
    by (cases dbInstance)
       (auto simp: generateAndStoreToken_def getDb_def insert_user_token_def Let_def
             split: if_splits)
  from row rid fresh rows
  have r: "r = \<lparr>tok_id = tokenId, tok_user_id = userId, tok_token = token,
                tok_expires_at = (t0 div 1000 + TOKEN_EXPIRES_IN) * 1000,
                tok_issued_at = t0 div 1000 * 1000\<rparr>"
    by auto
  from codec token have dec: "decode token = Some (?payload, config_JWT_SECRET env)"
    by simp
  from secret obtain s where env: "env = Some s" and s: "s \<noteq> []"
    by (cases env) (auto simp: config_JWT_SECRET_def)
  have embedded: "\<exists>payload. decode token = Some (payload, config_JWT_SECRET env)
            \<and> tok_expires_at r = exp payload * 1000"
    using dec r by (intro exI [of _ ?payload]) simp
  have rejected: "authenticateJWT (jsonwebtoken_verify decode) env now db_later (Some h)
               = (InvalidSignatureOrExpired, [])" if "tok_expires_at r \<le> now"
  proof -
    from that r have "(t0 div 1000 + TOKEN_EXPIRES_IN) * 1000 \<le> now" by simp
    then have "t0 div 1000 + TOKEN_EXPIRES_IN \<le> now div 1000" by simp
    with dec env s have "jsonwebtoken_verify decode token env now = None"
      by (simp add: jsonwebtoken_verify_def config_JWT_SECRET_def)
    then show ?thesis
      by (simp add: authenticateJWT_bearer [OF pre tok] InvalidSignatureOrExpired_def)
  qed
  have presence: "authenticateJWT (jsonwebtoken_verify decode) env now (Some db) (Some h)
             = (if \<exists>x \<in> set (user_tokens db). tok_id x = tokenId \<and> tok_token x = token
                then NextUser userId else NotRecognized,
                [SelectUserToken tokenId token])" if "now < tok_expires_at r"
  proof -
    from that r have "now < (t0 div 1000 + TOKEN_EXPIRES_IN) * 1000" by simp
    then have "now div 1000 < t0 div 1000 + TOKEN_EXPIRES_IN" by simp
    with dec env s have ver: "jsonwebtoken_verify decode token env now = Some ?payload"
      by (simp add: jsonwebtoken_verify_def config_JWT_SECRET_def)
    show ?thesis
    proof (cases "\<exists>x \<in> set (user_tokens db). tok_id x = tokenId \<and> tok_token x = token")
      case True
      then obtain x where "sql_get (\<lambda>r. tok_id r = tokenId \<and> tok_token r = token)
                             (user_tokens db) = Some x"
        by (cases "find (\<lambda>r. tok_id r = tokenId \<and> tok_token r = token) (user_tokens db)")
           (auto simp: sql_get_def find_None_iff)
      with True ver show ?thesis
        by (simp add: authenticateJWT_bearer [OF pre tok] getDb_def)
    next
      case False
      then have "sql_get (\<lambda>r. tok_id r = tokenId \<and> tok_token r = token) (user_tokens db)
                   = None"
        by (auto simp: sql_get_def find_None_iff)
      with False ver show ?thesis
        by (simp add: authenticateJWT_bearer [OF pre tok] getDb_def NotRecognized_def)
    qed
  qed
  have ignored: "authenticateJWT any_verify any_env any_now
           (Some (db\<lparr>user_tokens :=
                       map (\<lambda>x. x\<lparr>tok_expires_at := f x\<rparr>) (user_tokens db)\<rparr>))
           authorization
         = authenticateJWT any_verify any_env any_now (Some db) authorization"
    by (rule authenticateJWT_ignores_stored_expiry)
  from r have "tok_token r = token" by simp
  with embedded rejected presence ignored show ?thesis
    by blast
qed

text \<open>A row whose stored expiry, 1000 ms, lies before the clock, 5000 ms, while the token it holds still verifies: the credential is accepted.\<close>

theorem stored_expiry_not_compared_counterexample:
  "authenticateJWT (jsonwebtoken_verify ex_decode) (Some ''secret'') 5000
     (Some \<lparr>events = [], event_likes = [],
            user_tokens = [\<lparr>tok_id = ''t1'', tok_user_id = ''u1'', tok_token = ''tok'',
                            tok_expires_at = 1000, tok_issued_at = 0\<rparr>]\<rparr>)
     (Some ''Bearer tok'')
   = (NextUser ''u1'', [SelectUserToken ''t1'' ''tok''])"
  by (simp add: authenticateJWT_def header_token_def jsonwebtoken_verify_def ex_decode_def
        getDb_def sql_get_def)

text \<open>The computable token format: decoding inverts signing, and a token has no blank unless a field has one.\<close>

lemma unbits_bits: "unbits (bits n) = n"
proof (induction n rule: bits.induct)
  case (1 n)
  show ?case
  proof (cases "n = 0")
    case True
    then show ?thesis by (simp add: bits.simps)
  next
    case False
    with "1" have "unbits (bits (n div 2)) = n div 2" by simp
    with False show ?thesis
      by (subst bits.simps) (auto elim: evenE oddE)
  qed
qed

lemma dec_enc_int: "dec_int (enc_int i) = Some i"
  by (simp add: dec_int_def enc_int_def unbits_bits)

lemma dec_enc_field: "dec_field (enc_field s rest) = Some (s, rest)"
proof (induction s)
  case Nil
  then show ?case by (cases rest) simp_all
next
  case (Cons c cs)
  then show ?case by simp
qed

lemma codec_round_trip: "codec_decode (codec_sign p s) = Some (p, s)"
  by (simp add: codec_decode_def codec_sign_def dec_enc_field dec_enc_int)

lemma bits_no_space: "CHR '' '' \<notin> set (bits n)"
proof (induction n rule: bits.induct)
  case (1 n)
  show ?case
  proof (cases "n = 0")
    case True
    then show ?thesis by (simp add: bits.simps)
  next
    case False
    with "1" have "CHR '' '' \<notin> set (bits (n div 2))" by simp
    with False show ?thesis by (subst bits.simps) simp
  qed
qed

lemma enc_field_no_space:
  "CHR '' '' \<notin> set s \<Longrightarrow> CHR '' '' \<notin> set rest \<Longrightarrow> CHR '' '' \<notin> set (enc_field s rest)"
  by (induction s) auto

lemma enc_int_no_space: "CHR '' '' \<notin> set (enc_int i)"
  by (simp add: enc_int_def bits_no_space)

lemma codec_sign_no_space:
  assumes "CHR '' '' \<notin> set (sub p)" and "CHR '' '' \<notin> set (jti p)" and "CHR '' '' \<notin> set s"
  shows "CHR '' '' \<notin> set (codec_sign p s)"
  unfolding codec_sign_def using assms
  by (intro enc_field_no_space enc_int_no_space) simp_all

lemma ex_issued_token_no_space: "CHR '' '' \<notin> set ex_issued_token"
  unfolding ex_issued_token_def by (rule codec_sign_no_space) simp_all

lemma split_space_no_space: "CHR '' '' \<notin> set t \<Longrightarrow> split_space t = [t]"
  by (induction t) auto

lemma header_token_bearer:
  "CHR '' '' \<notin> set t \<Longrightarrow> header_token (''Bearer '' @ t) = Some t"
  by (simp add: header_token_def split_space_no_space)

lemma prefix_bearer: "prefix ''Bearer '' (''Bearer '' @ t)"
  by simp

text \<open>A token issued at 500 ms in the computable format: rejected at the stored expiry of its row, accepted one millisecond earlier.\<close>

theorem issued_token_rejected_after_expiry_witness:
  "generateAndStoreToken codec_sign (Some ''secret'')
       (Some \<lparr>events = [], event_likes = [], user_tokens = []\<rparr>) ''t1'' 500 ''u1'' ''agent''
     = Inr (ex_issued_db, ex_issued_token)
   \<and> (\<forall>p s. codec_decode (codec_sign p s) = Some (p, s))
   \<and> header_token (''Bearer '' @ ex_issued_token) = Some ex_issued_token
   \<and> authenticateJWT (jsonwebtoken_verify codec_decode) (Some ''secret'') 604800000
        (Some ex_issued_db) (Some (''Bearer '' @ ex_issued_token))
       = (InvalidSignatureOrExpired, [])
   \<and> authenticateJWT (jsonwebtoken_verify codec_decode) (Some ''secret'') 604799999
        (Some ex_issued_db) (Some (''Bearer '' @ ex_issued_token))
       = (NextUser ''u1'', [SelectUserToken ''t1'' ex_issued_token])"
proof -
  let ?r = "\<lparr>tok_id = ''t1'', tok_user_id = ''u1'', tok_token = ex_issued_token,
             tok_expires_at = 604800000, tok_issued_at = 0\<rparr>"
  have issue: "generateAndStoreToken codec_sign (Some ''secret'')
       (Some \<lparr>events = [], event_likes = [], user_tokens = []\<rparr>) ''t1'' 500 ''u1'' ''agent''
     = Inr (ex_issued_db, ex_issued_token)"
    by (simp add: generateAndStoreToken_def config_JWT_SECRET_def getDb_def
          insert_user_token_def ex_issued_db_def ex_issued_token_def TOKEN_EXPIRES_IN_def
          Let_def)
  have codec: "\<forall>p s. codec_decode (codec_sign p s) = Some (p, s)"
    by (simp add: codec_round_trip)
  have row: "?r \<in> set (user_tokens ex_issued_db)" and rid: "tok_id ?r = ''t1''"
    by (simp_all add: ex_issued_db_def)
  have pre: "prefix ''Bearer '' (''Bearer '' @ ex_issued_token)"
    by (rule prefix_bearer)
  have tok: "header_token (''Bearer '' @ ex_issued_token) = Some ex_issued_token"
    using ex_issued_token_no_space by (rule header_token_bearer)
  have present: "\<exists>x \<in> set (user_tokens ex_issued_db).
                   tok_id x = ''t1'' \<and> tok_token x = ex_issued_token"
    by (simp add: ex_issued_db_def)
  from issued_token_rejected_after_expiry
      [where decode = codec_decode and now = 604800000 and db_later = "Some ex_issued_db",
       OF issue codec row rid pre tok]
  have late: "authenticateJWT (jsonwebtoken_verify codec_decode) (Some ''secret'') 604800000
        (Some ex_issued_db) (Some (''Bearer '' @ ex_issued_token))
       = (InvalidSignatureOrExpired, [])"
    by simp
  from issued_token_rejected_after_expiry
      [where decode = codec_decode and now = 604799999 and db = ex_issued_db,
       OF issue codec row rid pre tok] present
  have early: "authenticateJWT (jsonwebtoken_verify codec_decode) (Some ''secret'') 604799999
        (Some ex_issued_db) (Some (''Bearer '' @ ex_issued_token))
       = (NextUser ''u1'', [SelectUserToken ''t1'' ex_issued_token])"
    by simp
  from issue codec tok late early show ?thesis
    by blast
qed

text \<open>The example token is issued and revoked; presented at its expiry time it is answered "Invalid or expired token", which is not the answer for an unrecognised token.\<close>

theorem revoked_token_after_expiry_counterexample:
  "generateAndStoreToken ex_sign (Some ''secret'')
       (Some \<lparr>events = [], event_likes = [], user_tokens = []\<rparr>) ''t1'' 500 ''u1'' ''agent''
     = Inr (ex_token_db, ''tok'')
   \<and> revokeToken (Some ex_token_db) ''tok''
       = Inr \<lparr>events = [], event_likes = [], user_tokens = []\<rparr>
   \<and> authenticateJWT (jsonwebtoken_verify ex_decode) (Some ''secret'') 604800000
        (Some \<lparr>events = [], event_likes = [], user_tokens = []\<rparr>) (Some ''Bearer tok'')
       = (Status401 ''Invalid or expired token'', [])
   \<and> NotRecognized = Status401 ''Token not recognized or revoked''"
  by (simp add: generateAndStoreToken_def config_JWT_SECRET_def getDb_def
        insert_user_token_def ex_sign_def ex_token_db_def TOKEN_EXPIRES_IN_def
        revokeToken_def sql_delete_def authenticateJWT_def header_token_def
        jsonwebtoken_verify_def ex_decode_def NotRecognized_def Let_def)

text \<open>The example token is revoked and presented while it still verifies.\<close>

theorem revocation_is_immediate_witness:
  "prefix ''Bearer '' ''Bearer tok'' \<and> header_token ''Bearer tok'' = Some ''tok''
   \<and> revokeToken (Some ex_token_db) ''tok''
       = Inr \<lparr>events = [], event_likes = [], user_tokens = []\<rparr>
   \<and> authenticateJWT (jsonwebtoken_verify ex_decode) (Some ''secret'') 1000
        (Some \<lparr>events = [], event_likes = [], user_tokens = []\<rparr>) (Some ''Bearer tok'')
       = (NotRecognized, [SelectUserToken ''t1'' ''tok''])"
proof -
  have pre: "prefix ''Bearer '' ''Bearer tok''" and tok: "header_token ''Bearer tok'' = Some ''tok''"
    by (simp_all add: header_token_def)
  have rev: "revokeToken (Some ex_token_db) ''tok''
               = Inr \<lparr>events = [], event_likes = [], user_tokens = []\<rparr>"
    by (simp add: revokeToken_def getDb_def sql_delete_def ex_token_db_def)
  have ver: "jsonwebtoken_verify ex_decode ''tok'' (Some ''secret'') 1000
               = Some \<lparr>sub = ''u1'', jti = ''t1'', iat = 0, exp = 604800\<rparr>"
    by (simp add: jsonwebtoken_verify_def ex_decode_def)
  from revocation_is_immediate [OF pre tok, of ex_token_db "''t1''"
      "jsonwebtoken_verify ex_decode" "Some ''secret''" 1000]
  obtain db' where db': "revokeToken (Some ex_token_db) ''tok'' = Inr db'"
    and absent: "\<forall>r \<in> set (user_tokens db'). tok_token r \<noteq> ''tok''"
    and later: "\<And>later. \<forall>r \<in> set (user_tokens later). tok_token r \<noteq> ''tok'' \<Longrightarrow>
           authenticateJWT (jsonwebtoken_verify ex_decode) (Some ''secret'') 1000 (Some later)
               (Some ''Bearer tok'')
             = (case jsonwebtoken_verify ex_decode ''tok'' (Some ''secret'') 1000 of
                  None \<Rightarrow> (InvalidSignatureOrExpired, [])
                | Some p \<Rightarrow> (NotRecognized, [SelectUserToken (jti p) ''tok'']))"
    by blast
  from db' rev have "db' = \<lparr>events = [], event_likes = [], user_tokens = []\<rparr>"
    by simp
  with later [OF absent] ver pre tok rev show ?thesis
    by simp
qed

text \<open>A string that is no token is rejected without a read; the read made for the example token follows its verification.\<close>

theorem verification_precedes_ledger_witness:
  "prefix ''Bearer '' ''Bearer forged'' \<and> header_token ''Bearer forged'' = Some ''forged''
   \<and> jsonwebtoken_verify ex_decode ''forged'' (Some ''secret'') 1000 = None
   \<and> authenticateJWT (jsonwebtoken_verify ex_decode) (Some ''secret'') 1000 (Some ex_token_db)
        (Some ''Bearer forged'')
       = (InvalidSignatureOrExpired, [])
   \<and> snd (authenticateJWT (jsonwebtoken_verify ex_decode) (Some ''secret'') 1000
            (Some ex_token_db) (Some ''Bearer tok'')) = [SelectUserToken ''t1'' ''tok'']
   \<and> jsonwebtoken_verify ex_decode ''tok'' (Some ''secret'') 1000
       = Some \<lparr>sub = ''u1'', jti = ''t1'', iat = 0, exp = 604800\<rparr>"
proof -
  have pre: "prefix ''Bearer '' ''Bearer forged''"
    and tok: "header_token ''Bearer forged'' = Some ''forged''"
    and fails: "jsonwebtoken_verify ex_decode ''forged'' (Some ''secret'') 1000 = None"
    by (simp_all add: header_token_def jsonwebtoken_verify_def ex_decode_def)
  have reads: "snd (authenticateJWT (jsonwebtoken_verify ex_decode) (Some ''secret'') 1000
            (Some ex_token_db) (Some ''Bearer tok'')) \<noteq> []"
    by (simp add: authenticateJWT_def header_token_def jsonwebtoken_verify_def ex_decode_def
          getDb_def sql_get_def ex_token_db_def)
  have tok': "header_token ''Bearer tok'' = Some ''tok''"
    by (simp add: header_token_def)
  have ver: "jsonwebtoken_verify ex_decode ''tok'' (Some ''secret'') 1000
               = Some \<lparr>sub = ''u1'', jti = ''t1'', iat = 0, exp = 604800\<rparr>"
    by (simp add: jsonwebtoken_verify_def ex_decode_def)
  from verification_precedes_ledger [of "''Bearer forged''" "''forged''"
      "jsonwebtoken_verify ex_decode" "Some ''secret''" 1000 "Some ex_token_db"
      "Some ''Bearer tok''"] pre tok fails reads tok' ver
  show ?thesis
    by auto
qed

text \<open>Of two sessions of user \<^verbatim>\<open>u1\<close>, revoking the token of one leaves the other accepted.\<close>

theorem revocation_is_scoped_witness:
  "revokeToken
       (Some \<lparr>events = [], event_likes = [],
              user_tokens = [\<lparr>tok_id = ''t1'', tok_user_id = ''u1'', tok_token = ''tok'',
                              tok_expires_at = 604800000, tok_issued_at = 0\<rparr>,
                             \<lparr>tok_id = ''t2'', tok_user_id = ''u1'', tok_token = ''other'',
                              tok_expires_at = 604800000, tok_issued_at = 0\<rparr>]\<rparr>) ''other''
     = Inr ex_token_db
   \<and> authenticateJWT (jsonwebtoken_verify ex_decode) (Some ''secret'') 1000 (Some ex_token_db)
        (Some ''Bearer tok'')
       = authenticateJWT (jsonwebtoken_verify ex_decode) (Some ''secret'') 1000
           (Some \<lparr>events = [], event_likes = [],
                  user_tokens = [\<lparr>tok_id = ''t1'', tok_user_id = ''u1'', tok_token = ''tok'',
                                  tok_expires_at = 604800000, tok_issued_at = 0\<rparr>,
                                 \<lparr>tok_id = ''t2'', tok_user_id = ''u1'', tok_token = ''other'',
                                  tok_expires_at = 604800000, tok_issued_at = 0\<rparr>]\<rparr>)
           (Some ''Bearer tok'')
   \<and> authenticateJWT (jsonwebtoken_verify ex_decode) (Some ''secret'') 1000 (Some ex_token_db)
        (Some ''Bearer tok'')
       = (NextUser ''u1'', [SelectUserToken ''t1'' ''tok''])"
proof -
  let ?db = "\<lparr>events = [], event_likes = [],
              user_tokens = [\<lparr>tok_id = ''t1'', tok_user_id = ''u1'', tok_token = ''tok'',
                              tok_expires_at = 604800000, tok_issued_at = 0\<rparr>,
                             \<lparr>tok_id = ''t2'', tok_user_id = ''u1'', tok_token = ''other'',
                              tok_expires_at = 604800000, tok_issued_at = 0\<rparr>]\<rparr>"
  have rev: "revokeToken (Some ?db) ''other'' = Inr ex_token_db"
    by (simp add: revokeToken_def getDb_def sql_delete_def ex_token_db_def)
  have hdr: "prefix ''Bearer '' ''Bearer tok'' \<and> header_token ''Bearer tok'' = Some ''tok''
               \<and> ''tok'' \<noteq> ''other''"
    by (simp add: header_token_def)
  have ok: "authenticateJWT (jsonwebtoken_verify ex_decode) (Some ''secret'') 1000
              (Some ex_token_db) (Some ''Bearer tok'')
            = (NextUser ''u1'', [SelectUserToken ''t1'' ''tok''])"
    by (simp add: authenticateJWT_def header_token_def jsonwebtoken_verify_def ex_decode_def
          getDb_def sql_get_def ex_token_db_def)
  from revocation_is_scoped [of ?db "''other''" "jsonwebtoken_verify ex_decode"
      "Some ''secret''" 1000] rev hdr ok
  show ?thesis
    by (metis sum.inject(2))
qed

section \<open>The response cache\<close>

lemma filling_call_entry:
  assumes "poznan_request T production ''GET'' key now0 t0 (Inr m) cache0 = (cache1, res1, True)"
  shows "cache1 key = Some \<lparr>expires = t0 + T, value = Data m\<rparr>"
  using assms
  by (auto simp: poznan_request_def createCache_def poznan_get_def res_json_def
        originalJson_def new_response_def split: option.splits if_splits)

lemma live_entry_served:
  assumes "cache key = Some \<lparr>expires = e, value = v\<rparr>" and "t < e"
  shows "poznan_request T production ''GET'' key t t' fetched cache
           = (cache, \<lparr>statusCode = 200, sent = Some v, json_patch = None\<rparr>, False)"
  using assms
  by (simp add: poznan_request_def createCache_def originalJson_def new_response_def)

lemma expired_entry_recomputed:
  assumes "cache key = Some \<lparr>expires = e, value = v\<rparr>" and "e < t"
  shows "poznan_request T production ''GET'' key t t' (Inr m') cache
           = (cache(key \<mapsto> \<lparr>expires = t' + T, value = Data m'\<rparr>),
              \<lparr>statusCode = 200, sent = Some (Data m'), json_patch = Some (key, T)\<rparr>, True)"
  using assms
  by (simp add: poznan_request_def createCache_def poznan_get_def res_json_def
        originalJson_def new_response_def)

lemma expired_entry_invokes:
  assumes "cache key = Some \<lparr>expires = e, value = v\<rparr>" and "e < t"
  shows "snd (snd (poznan_request T production ''GET'' key t t' fetched cache))"
  using assms
  by (simp add: poznan_request_def createCache_def new_response_def split: prod.splits)

lemma expired_entry_failed_recompute:
  assumes "cache key = Some \<lparr>expires = e, value = v\<rparr>" and "e < t"
  shows "poznan_request T production ''GET'' key t t' (Inl err) cache
           = (cache(key \<mapsto>
                 \<lparr>expires = t' + T,
                  value = ErrorResponse
                            (if err_message err = [] then ''Internal Server Error''
                             else err_message err)
                            (if production then None else truthy_string (err_stack err))
                            (truthy_string (err_details err))\<rparr>),
              \<lparr>statusCode =
                 (case num_or (num_or (err_statusCode err) (err_status err)) (Some 500) of
                    Some n \<Rightarrow> n | None \<Rightarrow> 500),
               sent = Some (ErrorResponse
                              (if err_message err = [] then ''Internal Server Error''
                               else err_message err)
                              (if production then None else truthy_string (err_stack err))
                              (truthy_string (err_details err))),
               json_patch = Some (key, T)\<rparr>,
              True)"
  using assms
  by (simp add: poznan_request_def createCache_def poznan_get_def errorHandler_def res_json_def
        originalJson_def new_response_def Let_def)

text \<open>
  Claim C6. Let a request for a key have run the route handler, which sent its data at
  time \<^verbatim>\<open>t0\<close> under the time to live \<^verbatim>\<open>T\<close>. A request for the key at any time before
  \<^verbatim>\<open>t0 + T\<close> is answered with the stored data, the handler does not run and the cache
  is unchanged. A request at any time after \<^verbatim>\<open>t0 + T\<close> runs the handler again, whatever
  the handler then does. When the handler sends fresh data at time \<^verbatim>\<open>t'\<close>, the response
  is that data and the entry of the key is replaced by it with expiry \<^verbatim>\<open>t' + T\<close>. When
  the handler fails, the response is the body and status of the error handler, and the
  expired entry is gone from the cache: in neither case is the expired data served.
\<close>

theorem cache_freshness_boundary:
  assumes fill: "poznan_request T production ''GET'' key now0 t0 (Inr m) cache0
                   = (cache1, res1, True)"
  shows "(t < t0 + T \<longrightarrow>
            poznan_request T production ''GET'' key t t' fetched cache1
              = (cache1, \<lparr>statusCode = 200, sent = Some (Data m), json_patch = None\<rparr>, False))
       \<and> (t0 + T < t \<longrightarrow>
            snd (snd (poznan_request T production ''GET'' key t t' fetched cache1))
          \<and> poznan_request T production ''GET'' key t t' (Inr m') cache1
              = (cache1(key \<mapsto> \<lparr>expires = t' + T, value = Data m'\<rparr>),
                 \<lparr>statusCode = 200, sent = Some (Data m'), json_patch = Some (key, T)\<rparr>,
                 True)
          \<and> poznan_request T production ''GET'' key t t' (Inl err) cache1
              = (cache1(key \<mapsto>
                   \<lparr>expires = t' + T,
                    value = ErrorResponse
                              (if err_message err = [] then ''Internal Server Error''
                               else err_message err)
                              (if production then None else truthy_string (err_stack err))
                              (truthy_string (err_details err))\<rparr>),
                 \<lparr>statusCode =
                    (case num_or (num_or (err_statusCode err) (err_status err)) (Some 500) of
                       Some n \<Rightarrow> n | None \<Rightarrow> 500),
                  sent = Some (ErrorResponse
                                 (if err_message err = [] then ''Internal Server Error''
                                  else err_message err)
                                 (if production then None else truthy_string (err_stack err))
                                 (truthy_string (err_details err))),
                  json_patch = Some (key, T)\<rparr>,
                 True))"
proof -
  from fill have entry: "cache1 key = Some \<lparr>expires = t0 + T, value = Data m\<rparr>"
    by (rule filling_call_entry)
  show ?thesis
    using live_entry_served [where cache = cache1 and key = key, OF entry]
      expired_entry_recomputed [where cache = cache1 and key = key, OF entry]
      expired_entry_invokes [where cache = cache1 and key = key, OF entry]
      expired_entry_failed_recompute [where cache = cache1 and key = key, OF entry]
    by blast
qed

text \<open>
  Whatever the key, the time to live and the error are: when the route handler fails on a
  request that missed the cache, the body built by the error handler is stored under the
  key.
\<close>

lemma failed_compute_stores_error_body:
  assumes "cache key = None"
  shows "\<exists>msg stack details status.
           poznan_request T production ''GET'' key now now_json (Inl err) cache
             = (cache(key \<mapsto> \<lparr>expires = now_json + T,
                                value = ErrorResponse msg stack details\<rparr>),
                \<lparr>statusCode = status, sent = Some (ErrorResponse msg stack details),
                 json_patch = Some (key, T)\<rparr>,
                True)"
  using assms
  by (simp add: poznan_request_def createCache_def poznan_get_def errorHandler_def res_json_def
        originalJson_def new_response_def Let_def)

text \<open>
  Claim C4. With the upstream call failing on an empty cache, the error handler answers
  500 through the replaced \<^verbatim>\<open>res.json\<close>, so the error body is stored under the key for
  five minutes; the next request for the key, one second later, is answered from the cache
  with that error body and status 200, and the route handler does not run.
\<close>

theorem failed_compute_is_cached:
  "poznan_request CACHE_TTL_MS True ''GET'' ''/v1/poznan'' 1000 1200 (Inl ex_upstream_error)
       (Map.empty :: string list cache)
     = ([''/v1/poznan'' \<mapsto>
           \<lparr>expires = 301200, value = ErrorResponse ''connect ECONNREFUSED'' None None\<rparr>],
        \<lparr>statusCode = 500, sent = Some (ErrorResponse ''connect ECONNREFUSED'' None None),
         json_patch = Some (''/v1/poznan'', 300000)\<rparr>,
        True)
   \<and> poznan_request CACHE_TTL_MS True ''GET'' ''/v1/poznan'' 2000 2100 (Inr [''stop''])
       [''/v1/poznan'' \<mapsto>
           \<lparr>expires = 301200, value = ErrorResponse ''connect ECONNREFUSED'' None None\<rparr>]
     = ([''/v1/poznan'' \<mapsto>
           \<lparr>expires = 301200, value = ErrorResponse ''connect ECONNREFUSED'' None None\<rparr>],
        \<lparr>statusCode = 200, sent = Some (ErrorResponse ''connect ECONNREFUSED'' None None),
         json_patch = None\<rparr>,
        False)"
  by (simp add: poznan_request_def createCache_def poznan_get_def errorHandler_def res_json_def
        originalJson_def new_response_def CACHE_TTL_MS_def ex_upstream_error_def num_or_def
        truthy_string_def Let_def)

text \<open>A first request fills the entry at 1200 ms; requests one millisecond before and after its expiry, the latter with a handler that succeeds and with one that fails.\<close>

theorem cache_freshness_boundary_witness:
  "poznan_request CACHE_TTL_MS True ''GET'' ''/v1/poznan'' 1000 1200 (Inr [''a''])
       (Map.empty :: string list cache)
     = ([''/v1/poznan'' \<mapsto> \<lparr>expires = 301200, value = Data [''a'']\<rparr>],
        \<lparr>statusCode = 200, sent = Some (Data [''a'']),
         json_patch = Some (''/v1/poznan'', CACHE_TTL_MS)\<rparr>, True)
   \<and> poznan_request CACHE_TTL_MS True ''GET'' ''/v1/poznan'' 301199 301250 (Inr [''b''])
       [''/v1/poznan'' \<mapsto> \<lparr>expires = 301200, value = Data [''a'']\<rparr>]
     = ([''/v1/poznan'' \<mapsto> \<lparr>expires = 301200, value = Data [''a'']\<rparr>],
        \<lparr>statusCode = 200, sent = Some (Data [''a'']), json_patch = None\<rparr>, False)
   \<and> poznan_request CACHE_TTL_MS True ''GET'' ''/v1/poznan'' 301201 301250 (Inr [''b''])
       [''/v1/poznan'' \<mapsto> \<lparr>expires = 301200, value = Data [''a'']\<rparr>]
     = ([''/v1/poznan'' \<mapsto> \<lparr>expires = 601250, value = Data [''b'']\<rparr>],
        \<lparr>statusCode = 200, sent = Some (Data [''b'']),
         json_patch = Some (''/v1/poznan'', CACHE_TTL_MS)\<rparr>, True)
   \<and> poznan_request CACHE_TTL_MS True ''GET'' ''/v1/poznan'' 301201 301250
       (Inl ex_upstream_error)
       [''/v1/poznan'' \<mapsto> \<lparr>expires = 301200, value = Data [''a'']\<rparr>]
     = ([''/v1/poznan'' \<mapsto>
           \<lparr>expires = 601250, value = ErrorResponse ''connect ECONNREFUSED'' None None\<rparr>],
        \<lparr>statusCode = 500, sent = Some (ErrorResponse ''connect ECONNREFUSED'' None None),
         json_patch = Some (''/v1/poznan'', CACHE_TTL_MS)\<rparr>, True)"
proof -
  have fill: "poznan_request CACHE_TTL_MS True ''GET'' ''/v1/poznan'' 1000 1200 (Inr [''a''])
       (Map.empty :: string list cache)
     = ([''/v1/poznan'' \<mapsto> \<lparr>expires = 301200, value = Data [''a'']\<rparr>],
        \<lparr>statusCode = 200, sent = Some (Data [''a'']),
         json_patch = Some (''/v1/poznan'', CACHE_TTL_MS)\<rparr>, True)"
    by (simp add: poznan_request_def createCache_def poznan_get_def res_json_def
          originalJson_def new_response_def CACHE_TTL_MS_def)
  have before: "(301199::int) < 1200 + CACHE_TTL_MS" and after: "1200 + CACHE_TTL_MS < (301201::int)"
    by (simp_all add: CACHE_TTL_MS_def)
  from cache_freshness_boundary
         [where t = 301199 and t' = 301250 and fetched = "Inr [''b'']", OF fill] before
    cache_freshness_boundary
         [where t = 301201 and t' = 301250 and m' = "[''b'']" and err = ex_upstream_error,
          OF fill] after fill
  show ?thesis
    by (simp add: CACHE_TTL_MS_def ex_upstream_error_def num_or_def truthy_string_def)
qed

end
